theory Spec2Isabelle
  imports Complex_Main
begin

section \<open>The Spot model of Sweet Spots (models/Spots.js)\<close>

text \<open>
  A shallow embedding of \<^verbatim>\<open>models/Spots.js\<close>. The callbacks of the source are
  composed strictly one after the other, so every operation is a function from the state
  of the collections to a result and the new state. A callback called with an error is
  the result \<open>Inl\<close>, a callback called with \<open>null\<close> and a value is \<open>Inr\<close>.
\<close>

subsection \<open>JavaScript values\<close>

text \<open>
  A JavaScript Number. Finite values are kept exact as rationals (rounding of doubles is
  not modelled; nothing below depends on it), \<open>NaN\<close> is the not-a-number value.
\<close>

datatype jsnum = Num rat | NaN

fun num_plus :: "jsnum \<Rightarrow> jsnum \<Rightarrow> jsnum" where
  "num_plus (Num a) (Num b) = Num (a + b)"
| "num_plus _ _ = NaN"

fun num_minus :: "jsnum \<Rightarrow> jsnum \<Rightarrow> jsnum" where
  "num_minus (Num a) (Num b) = Num (a - b)"
| "num_minus _ _ = NaN"

text \<open>Division by the length of a non-empty array (the only divisor of the source).\<close>

fun num_div :: "jsnum \<Rightarrow> nat \<Rightarrow> jsnum" where
  "num_div (Num a) n = (if n = 0 then NaN else Num (a / of_nat n))"
| "num_div NaN n = NaN"

text \<open>\<^verbatim>\<open>a > b\<close> on Numbers: every comparison with \<open>NaN\<close> is false.\<close>

fun num_gt :: "jsnum \<Rightarrow> jsnum \<Rightarrow> bool" where
  "num_gt (Num a) (Num b) = (b < a)"
| "num_gt _ _ = False"

text \<open>The value of a property read: \<^verbatim>\<open>undefined\<close> when the object has no such property.\<close>

datatype jsprop = Undefined | Defined jsnum

fun ToNumber_prop :: "jsprop \<Rightarrow> jsnum" where
  "ToNumber_prop Undefined = NaN"
| "ToNumber_prop (Defined x) = x"

subsection \<open>Identifiers\<close>

text \<open>
  The value of an ObjectId (its 12 bytes) is a natural number; the ids stored in the
  documents are such values. An id held by JavaScript code is a string or an ObjectId
  object:
  \<^item> \<open>IdString v\<close> is the string of the 24 lower-case hex digits of \<open>v\<close>, the text that
    \<^verbatim>\<open>toHexString\<close> gives;
  \<^item> \<open>IdStringAs n v\<close> is a string that the driver casts to the value \<open>v\<close> as well, but
    that is spelt otherwise (with upper-case hex digits, say); \<open>n\<close> tells such strings of
    one value apart;
  \<^item> \<open>ObjectId r v\<close> is an ObjectId object with the value \<open>v\<close>; an object also has its
    identity, the reference \<open>r\<close> under which it lives in the heap.

  A string that is no id at all is not a value of the model: the driver cannot cast it,
  and the call that receives it fails (a fault of that call, see \<open>faults\<close> below).
\<close>

type_synonym oid = nat

datatype idval = IdString oid | IdStringAs nat oid | ObjectId nat oid

text \<open>
  The text that \<^verbatim>\<open>JSON.stringify\<close> gives for an id (the quotes left out): for a string the
  string itself, for an ObjectId object (through \<^verbatim>\<open>toJSON\<close>) the 24 lower-case hex digits
  of its value. \<open>HexText v\<close> is that text of the value \<open>v\<close>, \<open>OtherText n v\<close> the text of
  the string \<open>IdStringAs n v\<close>. Two such texts are equal exactly when the characters are.
\<close>

datatype json_text = HexText oid | OtherText nat oid

fun JSON_stringify :: "idval \<Rightarrow> json_text" where
  "JSON_stringify (IdString v) = HexText v"
| "JSON_stringify (IdStringAs n v) = OtherText n v"
| "JSON_stringify (ObjectId r v) = HexText v"

text \<open>\<^verbatim>\<open>JSON.stringify\<close> of an id read from a stored document, which is an ObjectId.\<close>

definition JSON_stringify_ObjectId :: "oid \<Rightarrow> json_text" where
  "JSON_stringify_ObjectId v = HexText v"

text \<open>The value a query or a new document casts an id to.\<close>

fun cast_id :: "idval \<Rightarrow> oid" where
  "cast_id (IdString v) = v"
| "cast_id (IdStringAs n v) = v"
| "cast_id (ObjectId r v) = v"

text \<open>
  \<^verbatim>\<open>a === b\<close>: two strings are equal when their characters are, two objects only
  when they are the same object, a string and an object never.
\<close>

fun strict_equals :: "idval \<Rightarrow> idval \<Rightarrow> bool" where
  "strict_equals (IdString a) (IdString b) = (a = b)"
| "strict_equals (IdStringAs n a) (IdStringAs m b) = (n = m \<and> a = b)"
| "strict_equals (ObjectId r a) (ObjectId s b) = (r = s)"
| "strict_equals _ _ = False"

subsection \<open>Errors\<close>

definition BAD_REQUEST :: nat where "BAD_REQUEST = 400"
definition NOT_FOUND :: nat where "NOT_FOUND = 404"
definition FORBIDDEN :: nat where "FORBIDDEN = 403"
definition SPOT_NOT_FOUND :: string where "SPOT_NOT_FOUND = ''No such spot with that id!''"

text \<open>
  \<open>Error msg status\<close> is the object \<^verbatim>\<open>{msg: msg, http_status: status}\<close>;
  \<open>Unknown\<close> is \<^verbatim>\<open>{msg: err}\<close>, an error without \<^verbatim>\<open>http_status\<close> (the payload is
  dropped); \<open>Thrown\<close> is an exception no callback catches (a TypeError).
\<close>

datatype error = Error string nat | Unknown | Thrown

text \<open>The test \<^verbatim>\<open>if (err.http_status)\<close>.\<close>

fun has_http_status :: "error \<Rightarrow> bool" where
  "has_http_status (Error m s) = (s \<noteq> 0)"
| "has_http_status _ = False"

definition errorHandler :: "error \<Rightarrow> error" where
  "errorHandler err = (if has_http_status err then err else Unknown)"

subsection \<open>The rep invariant: checkRep\<close>

definition TITLE_LOWER_LIMIT :: nat where "TITLE_LOWER_LIMIT = 3"
definition TITLE_UPPER_LIMIT :: nat where "TITLE_UPPER_LIMIT = 20"
definition FLOOR_UPPER_LIMIT :: nat where "FLOOR_UPPER_LIMIT = 3"

text \<open>
  Strings are lists of code units; the code units of the model are those below 256.
  \<open>char_range lo hi\<close> is the class range \<^verbatim>\<open>lo-hi\<close>, \<open>white_space\<close> is \<^verbatim>\<open>\s\<close> on these
  code units (tab, line feed, vertical tab, form feed, carriage return, space, no-break
  space).
\<close>

definition char_range :: "char \<Rightarrow> char \<Rightarrow> char \<Rightarrow> bool" where
  "char_range lo hi c = ((of_char lo :: nat) \<le> of_char c \<and> (of_char c :: nat) \<le> of_char hi)"

definition white_space :: "char \<Rightarrow> bool" where
  "white_space c = ((of_char c :: nat) \<in> {9, 10, 11, 12, 13, 32, 160})"

text \<open>The class \<^verbatim>\<open>[a-zA-z0-9\s\']\<close> of the title pattern, range by range as written.\<close>

definition title_class :: "char \<Rightarrow> bool" where
  "title_class c =
     (char_range CHR ''a'' CHR ''z'' c \<or> char_range CHR ''A'' CHR ''z'' c \<or>
      char_range CHR ''0'' CHR ''9'' c \<or> white_space c \<or> c = CHR 0x27)"

text \<open>The class \<^verbatim>\<open>[A-Z0-9]\<close> of the floor pattern.\<close>

definition floor_class :: "char \<Rightarrow> bool" where
  "floor_class c = (char_range CHR ''A'' CHR ''Z'' c \<or> char_range CHR ''0'' CHR ''9'' c)"

text \<open>\<^verbatim>\<open>/^[class]+$/.test(s)\<close>: one or more characters, all of the class.\<close>

definition regex_test :: "(char \<Rightarrow> bool) \<Rightarrow> string \<Rightarrow> bool" where
  "regex_test cls s = (s \<noteq> [] \<and> list_all cls s)"

text \<open>
  The floor argument: \<^verbatim>\<open>null\<close>, \<^verbatim>\<open>undefined\<close> (the argument is absent), or a string.
\<close>

datatype floor_arg = NullFloor | UndefinedFloor | Floor string

text \<open>
  The result is the message, or \<^verbatim>\<open>null\<close> (\<open>None\<close>). An undefined floor passes the test
  \<^verbatim>\<open>floor !== null\<close>, and \<^verbatim>\<open>test\<close> converts it to the text \<open>undefined\<close>; the pattern
  does not match that text, so \<^verbatim>\<open>floor.length\<close> is not read.
\<close>

definition checkRep :: "string \<Rightarrow> floor_arg \<Rightarrow> string option" where
  "checkRep title floor' =
     (let titleLength = length title;
          validTitle = (regex_test title_class title \<and> titleLength \<ge> TITLE_LOWER_LIMIT
                        \<and> titleLength \<le> TITLE_UPPER_LIMIT);
          validFloor = (case floor' of
                          NullFloor \<Rightarrow> True
                        | UndefinedFloor \<Rightarrow> regex_test floor_class ''undefined''
                        | Floor f \<Rightarrow> regex_test floor_class f \<and> length f \<le> FLOOR_UPPER_LIMIT)
      in if \<not> validTitle
         then Some ''The title must be a unique name between 3 and 20 characters!''
         else if \<not> validFloor
         then Some ''The floor must be alphanumerics and cannot be greater than 3 characters!''
         else None)"

text \<open>
  The title class as the specification words it, \<^verbatim>\<open>[A-Za-z0-9\s']\<close>, and the titles
  and floors the specification calls valid (a floor that is null or absent, or at most
  three characters of \<^verbatim>\<open>[A-Z0-9]\<close>).
\<close>

definition spec_title_class :: "char \<Rightarrow> bool" where
  "spec_title_class c =
     (char_range CHR ''A'' CHR ''Z'' c \<or> char_range CHR ''a'' CHR ''z'' c \<or>
      char_range CHR ''0'' CHR ''9'' c \<or> white_space c \<or> c = CHR 0x27)"

definition spec_valid_title :: "string \<Rightarrow> bool" where
  "spec_valid_title title =
     (regex_test spec_title_class title \<and> 3 \<le> length title \<and> length title \<le> 20)"

definition spec_valid_floor :: "floor_arg \<Rightarrow> bool" where
  "spec_valid_floor floor' =
     (case floor' of
        NullFloor \<Rightarrow> True
      | UndefinedFloor \<Rightarrow> True
      | Floor f \<Rightarrow> regex_test floor_class f \<and> length f \<le> 3)"

subsection \<open>Documents and collections\<close>

record review =
  review_id :: oid
  review_creator :: oid
  review_description :: string
  review_rating :: jsnum

record tag =
  tag_id :: oid
  tag_label :: string

record user =
  user_id :: oid
  user_rep :: int

record report =
  reporter :: oid
  reporterScore :: int

text \<open>A Spot document as spotSchema stores it; the timestamp is in milliseconds.\<close>

record spot =
  spot_id :: oid
  spot_title :: string
  spot_creator :: oid
  spot_latitude :: rat
  spot_longitude :: rat
  spot_floor :: string
  spot_tag :: oid
  spot_reviews :: "oid list"
  spot_rating :: jsnum
  spot_timestamp :: int
  spot_reports :: "report list"

text \<open>
  The state: the four collections in insertion order, the counter the next document id
  is taken from, and the next free reference of the JavaScript heap.
\<close>

record state =
  spots :: "spot list"
  reviews :: "review list"
  tags :: "tag list"
  users :: "user list"
  next_id :: oid
  next_ref :: nat

text \<open>
  The surroundings of one operation. \<open>faults c = Some e\<close> says that the call \<open>c\<close> to a
  collaborator or to the driver fails in this operation, with the error \<open>e\<close> (what makes
  a collaborator refuse, or the driver fail, is outside the source); \<open>now\<close> is
  \<^verbatim>\<open>Date.now()\<close>.
\<close>

datatype call =
  AddReview | GetTagByLabel | AddTag | UpdateRep | FindUserById
  | SpotSave | SpotFindOne | SpotPopulate | SpotUpdate | SpotRemove | SpotFind
  | ReviewRemove | TagRemove

record env =
  faults :: "call \<Rightarrow> error option"
  now :: int

subsection \<open>The collaborators: Reviews, Tags, Users\<close>

text \<open>
  Modelled from the spec: models/Reviews.js is missing. The contract is
  \<^verbatim>\<open>ReviewService.create(authorId, text, rating) -> Review | Error\<close>: unless it fails, a new
  Review document with these three fields is inserted under a new id.
\<close>

definition Reviews_addReview ::
  "env \<Rightarrow> state \<Rightarrow> idval \<Rightarrow> string \<Rightarrow> jsnum \<Rightarrow> (error + review) \<times> state" where
  "Reviews_addReview e st creatorId description rating =
     (case faults e AddReview of
        Some err \<Rightarrow> (Inl err, st)
      | None \<Rightarrow>
          (let r = \<lparr>review_id = next_id st, review_creator = cast_id creatorId,
                    review_description = description, review_rating = rating\<rparr>
           in (Inr r, st\<lparr>reviews := reviews st @ [r], next_id := next_id st + 1\<rparr>)))"

text \<open>
  Modelled from the spec: models/Tags.js is missing. The contract of \<^verbatim>\<open>Tags.getTagByLabel\<close>
  is \<^verbatim>\<open>TagService.getByLabel(label) -> Tag | Error(NotFound)\<close>. The text of the NotFound
  message is not given; nothing depends on it.
\<close>

definition Tags_getTagByLabel :: "env \<Rightarrow> state \<Rightarrow> string \<Rightarrow> error + tag" where
  "Tags_getTagByLabel e st label =
     (case faults e GetTagByLabel of
        Some err \<Rightarrow> Inl err
      | None \<Rightarrow>
          (case find (\<lambda>t. tag_label t = label) (tags st) of
             None \<Rightarrow> Inl (Error ''No such tag!'' NOT_FOUND)
           | Some t \<Rightarrow> Inr t))"

text \<open>
  Modelled from the spec: models/Tags.js is missing. The contract of \<^verbatim>\<open>Tags.addTag\<close> is
  \<^verbatim>\<open>TagService.create(label, seeded: bool) -> Tag | Error\<close>: unless it fails, a new Tag
  document with the label is inserted under a new id.
\<close>

definition Tags_addTag :: "env \<Rightarrow> state \<Rightarrow> string \<Rightarrow> bool \<Rightarrow> (error + tag) \<times> state" where
  "Tags_addTag e st label seeded =
     (case faults e AddTag of
        Some err \<Rightarrow> (Inl err, st)
      | None \<Rightarrow>
          (let t = \<lparr>tag_id = next_id st, tag_label = label\<rparr>
           in (Inr t, st\<lparr>tags := tags st @ [t], next_id := next_id st + 1\<rparr>)))"


text \<open>
  Modelled from the spec: models/Users.js is missing. The contract of \<^verbatim>\<open>Users.updateRep\<close>
  is \<^verbatim>\<open>UserService.adjustReputation(id, increase: bool) -> void | Error(NotFound)\<close>, which
  adds one to the reputation of the user (takes one away when \<open>increase\<close> is false; the
  source only passes true).
\<close>

definition Users_updateRep :: "env \<Rightarrow> state \<Rightarrow> idval \<Rightarrow> bool \<Rightarrow> error option \<times> state" where
  "Users_updateRep e st userId increase =
     (case faults e UpdateRep of
        Some err \<Rightarrow> (Some err, st)
      | None \<Rightarrow>
          (case find (\<lambda>u. user_id u = cast_id userId) (users st) of
             None \<Rightarrow> (Some (Error ''No such user!'' NOT_FOUND), st)
           | Some _ \<Rightarrow>
               (None, st\<lparr>users :=
                  map (\<lambda>u. if user_id u = cast_id userId
                           then u\<lparr>user_rep := user_rep u + (if increase then 1 else - 1)\<rparr>
                           else u) (users st)\<rparr>)))"

subsection \<open>The driver: reading and writing the collections\<close>

text \<open>
  What \<^verbatim>\<open>populate\<close> makes of \<^verbatim>\<open>spot.reviews\<close>: the Review documents the ids refer to, in
  the order of the ids (an id with no document is left out), each with its creator
  replaced by the User document, or by \<^verbatim>\<open>null\<close> when there is none.
\<close>

record hreview =
  hr_doc :: review
  hr_creator :: "user option"

definition populate_reviews :: "state \<Rightarrow> oid list \<Rightarrow> hreview list" where
  "populate_reviews st ids =
     List.map_filter
       (\<lambda>i. map_option
              (\<lambda>r. \<lparr>hr_doc = r,
                    hr_creator = find (\<lambda>u. user_id u = review_creator r) (users st)\<rparr>)
              (find (\<lambda>r. review_id r = i) (reviews st)))
       ids"

text \<open>
  The document object \<^verbatim>\<open>getSpotById\<close> hands to its callback: the stored fields, the
  populated reviews, and \<^verbatim>\<open>spot.creator\<close>, an ObjectId object that the driver made
  when it read the document (so it lives at a reference that was free before the read).
\<close>

record hspot =
  h_doc :: spot
  h_creator :: idval
  h_reviews :: "hreview list"

definition reviewModel_remove :: "env \<Rightarrow> state \<Rightarrow> oid \<Rightarrow> state" where
  "reviewModel_remove e st reviewId =
     (case faults e ReviewRemove of
        Some err \<Rightarrow> st
      | None \<Rightarrow> st\<lparr>reviews := filter (\<lambda>r. review_id r \<noteq> reviewId) (reviews st)\<rparr>)"

definition tagModel_remove :: "env \<Rightarrow> state \<Rightarrow> oid \<Rightarrow> state" where
  "tagModel_remove e st tagId =
     (case faults e TagRemove of
        Some err \<Rightarrow> st
      | None \<Rightarrow> st\<lparr>tags := filter (\<lambda>t. tag_id t \<noteq> tagId) (tags st)\<rparr>)"

definition spotModel_remove :: "state \<Rightarrow> oid \<Rightarrow> state" where
  "spotModel_remove st spotId = st\<lparr>spots := filter (\<lambda>s. spot_id s \<noteq> spotId) (spots st)\<rparr>"

text \<open>
  \<^verbatim>\<open>spot.save\<close> of a new Spot. The title is unique: a second Spot with a stored title is
  refused with the driver's error code 11000; any other failure is a fault.
\<close>

datatype save_error = DuplicateKey | OtherSaveError

definition spot_save :: "env \<Rightarrow> state \<Rightarrow> spot \<Rightarrow> (save_error + spot) \<times> state" where
  "spot_save e st s =
     (case faults e SpotSave of
        Some err \<Rightarrow> (Inl OtherSaveError, st)
      | None \<Rightarrow>
          if spot_title s \<in> set (map spot_title (spots st)) then (Inl DuplicateKey, st)
          else (Inr s, st\<lparr>spots := spots st @ [s]\<rparr>))"

subsection \<open>getSpotById\<close>

definition getSpotById :: "env \<Rightarrow> state \<Rightarrow> idval \<Rightarrow> error + hspot" where
  "getSpotById e st spotId =
     (case faults e SpotFindOne of
        Some err \<Rightarrow> Inl Unknown
      | None \<Rightarrow>
          (case find (\<lambda>s. spot_id s = cast_id spotId) (spots st) of
             None \<Rightarrow> Inl (Error SPOT_NOT_FOUND NOT_FOUND)
           | Some doc \<Rightarrow>
               (case faults e SpotPopulate of
                  Some err \<Rightarrow> Inl Unknown
                | None \<Rightarrow>
                    Inr \<lparr>h_doc = doc,
                         h_creator = ObjectId (next_ref st) (spot_creator doc),
                         h_reviews = populate_reviews st (spot_reviews doc)\<rparr>)))"

subsection \<open>The creation saga: addSpot, checkSpot, removeIfInvalid\<close>

definition removeIfInvalid ::
  "env \<Rightarrow> state \<Rightarrow> oid \<Rightarrow> oid \<Rightarrow> bool \<Rightarrow> error \<Rightarrow> (error + spot) \<times> state" where
  "removeIfInvalid e st reviewId tagId createdTag err =
     (let st1 = reviewModel_remove e st reviewId
      in if createdTag then (Inl err, tagModel_remove e st1 tagId) else (Inl err, st1))"

text \<open>
  \<^verbatim>\<open>new spotModel({...})\<close> takes the id of the new document and, as the default of
  \<^verbatim>\<open>timestamp\<close>, the time; \<^verbatim>\<open>floor\<close> keeps its default "1" when the argument is
  \<^verbatim>\<open>null\<close> (an undefined floor does not come this far: checkRep has refused it);
  \<^verbatim>\<open>reports\<close> starts empty.
\<close>

definition checkSpot ::
  "env \<Rightarrow> state \<Rightarrow> string \<Rightarrow> idval \<Rightarrow> rat \<times> rat \<Rightarrow> floor_arg \<Rightarrow> tag \<Rightarrow> review \<Rightarrow> bool
     \<Rightarrow> (error + spot) \<times> state" where
  "checkSpot e st title creatorId location floor' tg rv createdTag =
     (case checkRep title floor' of
        None \<Rightarrow>
          (let spot0 = \<lparr>spot_id = next_id st, spot_title = title,
                        spot_creator = cast_id creatorId,
                        spot_latitude = fst location, spot_longitude = snd location,
                        spot_floor = (case floor' of Floor f \<Rightarrow> f | _ \<Rightarrow> ''1''),
                        spot_tag = tag_id tg, spot_reviews = [review_id rv],
                        spot_rating = review_rating rv, spot_timestamp = now e,
                        spot_reports = []\<rparr>;
               st0 = st\<lparr>next_id := next_id st + 1\<rparr>
           in case Users_updateRep e st0 creatorId True of
                (Some err, st1) \<Rightarrow>
                  if has_http_status err
                  then removeIfInvalid e st1 (review_id rv) (tag_id tg) createdTag err
                  else removeIfInvalid e st1 (review_id rv) (tag_id tg) createdTag Unknown
              | (None, st1) \<Rightarrow>
                  (case spot_save e st1 spot0 of
                     (Inl DuplicateKey, st2) \<Rightarrow>
                       removeIfInvalid e st2 (review_id rv) (tag_id tg) createdTag
                         (Error ''A Spot already exists with this title.'' BAD_REQUEST)
                   | (Inl OtherSaveError, st2) \<Rightarrow>
                       removeIfInvalid e st2 (review_id rv) (tag_id tg) createdTag Unknown
                   | (Inr newSpot, st2) \<Rightarrow> (Inr newSpot, st2)))
      | Some isInvalid \<Rightarrow>
          removeIfInvalid e st (review_id rv) (tag_id tg) createdTag
            (Error isInvalid BAD_REQUEST))"

definition addSpot ::
  "env \<Rightarrow> state \<Rightarrow> string \<Rightarrow> idval \<Rightarrow> rat \<times> rat \<Rightarrow> floor_arg \<Rightarrow> string \<Rightarrow> string \<Rightarrow> jsnum
     \<Rightarrow> (error + spot) \<times> state" where
  "addSpot e st title creatorId location floor' label description rating =
     (case Reviews_addReview e st creatorId description rating of
        (Inl err, st1) \<Rightarrow> (Inl (errorHandler err), st1)
      | (Inr rv, st1) \<Rightarrow>
          (case Tags_getTagByLabel e st1 label of
             Inl err \<Rightarrow>
               if has_http_status err
               then (case Tags_addTag e st1 label False of
                       (Inl err2, st2) \<Rightarrow>
                         if has_http_status err2
                         then (Inl err2, reviewModel_remove e st2 (review_id rv))
                         else (Inl Unknown, reviewModel_remove e st2 (review_id rv))
                     | (Inr newTag, st2) \<Rightarrow>
                         checkSpot e st2 title creatorId location floor' newTag rv True)
               else (Inl Unknown, reviewModel_remove e st1 (review_id rv))
           | Inr tg \<Rightarrow> checkSpot e st1 title creatorId location floor' tg rv False))"

subsection \<open>addReviewToSpot\<close>

text \<open>
  The values \<^verbatim>\<open>total\<close> takes in the callback of \<^verbatim>\<open>reviews.reduce\<close>: a Number, a Review
  document, or a string. \<open>JText d ns\<close> is the string that starts with the rendering of
  the document \<open>d\<close> (its \<^verbatim>\<open>toString\<close>, which prints the document as an object between
  braces) and goes on with the decimal texts of the Numbers \<open>ns\<close>.
\<close>

datatype jsval = JNumber jsnum | JDocument review | JText review "jsnum list"

text \<open>
  \<^verbatim>\<open>total += n\<close> for a Number \<open>n\<close>: addition when \<open>total\<close> is a Number; otherwise
  \<open>total\<close> is converted to a string and the text of \<open>n\<close> is appended.
\<close>

fun js_plus :: "jsval \<Rightarrow> jsnum \<Rightarrow> jsval" where
  "js_plus (JNumber x) n = JNumber (num_plus x n)"
| "js_plus (JDocument d) n = JText d [n]"
| "js_plus (JText d ns) n = JText d (ns @ [n])"

text \<open>
  The conversion to a Number that \<^verbatim>\<open>/\<close> applies to its left operand: a document, and a
  string that starts with the rendering of one, is no numeric literal.
\<close>

fun ToNumber :: "jsval \<Rightarrow> jsnum" where
  "ToNumber (JNumber x) = x"
| "ToNumber (JDocument d) = NaN"
| "ToNumber (JText d ns) = NaN"

text \<open>
  \<^verbatim>\<open>array.reduce(f)\<close> with no initial value: the first element is the first accumulator
  and the callback runs from the second element on; on an empty array it throws.
\<close>

definition reduce_no_initial :: "(jsval \<Rightarrow> review \<Rightarrow> jsval) \<Rightarrow> review list \<Rightarrow> jsval option" where
  "reduce_no_initial f xs =
     (case xs of [] \<Rightarrow> None | x # rest \<Rightarrow> Some (foldl f (JDocument x) rest))"

text \<open>
  \<^verbatim>\<open>spot.rating = v\<close> on the Spot document: \<^verbatim>\<open>rating\<close> is a Number path of spotSchema,
  and the document casts what is assigned to it. \<open>NaN\<close> is refused (the cast error is
  kept on the document) and the path keeps the value it had; a number is taken.
\<close>

fun assign_rating :: "jsnum \<Rightarrow> jsnum \<Rightarrow> jsnum" where
  "assign_rating old NaN = old"
| "assign_rating old (Num x) = Num x"

definition spotModel_update :: "state \<Rightarrow> oid \<Rightarrow> oid list \<Rightarrow> jsnum \<Rightarrow> state" where
  "spotModel_update st spotId reviewsIds rating =
     st\<lparr>spots := map (\<lambda>s. if spot_id s = spotId
                            then s\<lparr>spot_reviews := reviewsIds, spot_rating := rating\<rparr>
                            else s) (spots st)\<rparr>"

text \<open>
  The filter callback reads \<^verbatim>\<open>reviewToCheck.creator._id\<close>, which throws when the populated
  creator is \<^verbatim>\<open>null\<close>. \<open>rating'\<close> is \<^verbatim>\<open>spot.rating\<close> after the assignment of the quotient,
  the value that is passed to \<^verbatim>\<open>spotModel.update\<close>. The Spot handed to the callback is the
  document with its new \<^verbatim>\<open>reviews\<close> and this rating.
\<close>

definition addReviewToSpot ::
  "env \<Rightarrow> state \<Rightarrow> idval \<Rightarrow> idval \<Rightarrow> string \<Rightarrow> jsnum \<Rightarrow> (error + spot \<times> review) \<times> state" where
  "addReviewToSpot e st spotId creatorId description rating =
     (case getSpotById e st spotId of
        Inl err \<Rightarrow> (Inl (errorHandler err), st)
      | Inr spot \<Rightarrow>
          if list_ex (\<lambda>reviewToCheck. hr_creator reviewToCheck = None) (h_reviews spot)
          then (Inl Thrown, st)
          else
            (let currentReviews =
                   filter (\<lambda>reviewToCheck.
                             map_option (\<lambda>u. JSON_stringify_ObjectId (user_id u))
                                        (hr_creator reviewToCheck)
                               = Some (JSON_stringify creatorId))
                          (h_reviews spot)
             in if length currentReviews \<noteq> 0 \<or> strict_equals (h_creator spot) creatorId
                then (Inl (Error ''You already submitted a review for this spot!'' FORBIDDEN), st)
                else
                  (case Reviews_addReview e st creatorId description rating of
                     (Inl err, st1) \<Rightarrow> (Inl (errorHandler err), st1)
                   | (Inr rv, st1) \<Rightarrow>
                       (let reviews' = map hr_doc (h_reviews spot) @ [rv]
                        in case reduce_no_initial
                                  (\<lambda>total oldReview. js_plus total (review_rating oldReview))
                                  reviews' of
                             None \<Rightarrow> (Inl Thrown, st1)
                           | Some totalRating \<Rightarrow>
                               (let rating' = assign_rating (spot_rating (h_doc spot))
                                                (num_div (ToNumber totalRating)
                                                   (length reviews'));
                                    reviewsIds = map review_id reviews'
                                in case faults e SpotUpdate of
                                     Some err \<Rightarrow> (Inl Unknown, st1)
                                   | None \<Rightarrow>
                                       (Inr ((h_doc spot)\<lparr>spot_reviews := reviewsIds,
                                                          spot_rating := rating'\<rparr>, rv),
                                        spotModel_update st1 (spot_id (h_doc spot))
                                          reviewsIds rating'))))))"

text \<open>
  An id value the caller of an operation can hold when the operation starts: a string,
  or an ObjectId object that was made before (its reference is below the next free one).
\<close>

fun caller_id :: "state \<Rightarrow> idval \<Rightarrow> bool" where
  "caller_id st (IdString v) = True"
| "caller_id st (IdStringAs n v) = True"
| "caller_id st (ObjectId r v) = (r < next_ref st)"

text \<open>The mean of a list of ratings as the specification words it: sum divided by count.\<close>

definition spec_mean :: "rat list \<Rightarrow> jsnum" where
  "spec_mean rs = Num (sum_list rs / of_nat (length rs))"

subsection \<open>deleteSpot\<close>

text \<open>\<^verbatim>\<open>86.4 * Math.pow(10, 6)\<close>, which is 86400000 (also as a double).\<close>

definition MILLISECONDS_IN_A_DAY :: rat where
  "MILLISECONDS_IN_A_DAY = (864 / 10) * 10 ^ 6"

text \<open>
  \<^verbatim>\<open>spot.timestamp\<close> is a Date. A Date object has no property \<^verbatim>\<open>createdAt\<close>, so
  reading it gives \<^verbatim>\<open>undefined\<close>, whatever the time the Date holds.
\<close>

definition Date_createdAt :: "int \<Rightarrow> jsprop" where
  "Date_createdAt timestamp = Undefined"

text \<open>
  \<^verbatim>\<open>getSpotById\<close> reports a missing Spot as an error, so the branch
  \<^verbatim>\<open>spot === null\<close> of the source is never taken and the model has no value for it.
\<close>

definition deleteSpot :: "env \<Rightarrow> state \<Rightarrow> idval \<Rightarrow> idval \<Rightarrow> (error + unit) \<times> state" where
  "deleteSpot e st spotId userId =
     (case getSpotById e st spotId of
        Inl err \<Rightarrow> (Inl (errorHandler err), st)
      | Inr spot \<Rightarrow>
          if JSON_stringify (h_creator spot) \<noteq> JSON_stringify userId
          then (Inl (Error ''You do not have access to delete this spot!'' FORBIDDEN), st)
          else if num_gt (num_minus (Num (of_int (now e)))
                            (ToNumber_prop (Date_createdAt (spot_timestamp (h_doc spot)))))
                         (Num MILLISECONDS_IN_A_DAY)
          then (Inl (Error ''It has been more than 24 hours since this spot was created!''
                       FORBIDDEN), st)
          else (case faults e SpotRemove of
                  Some err \<Rightarrow> (Inl Unknown, st)
                | None \<Rightarrow> (Inr (), spotModel_remove st (cast_id spotId))))"

subsection \<open>reportSpot\<close>



subsection \<open>getSpotsByLocation\<close>

text \<open>A Spot of a query result, with its tag and its reviews populated.\<close>

record lspot =
  l_doc :: spot
  l_tag :: "tag option"
  l_reviews :: "hreview list"

definition getSpotsByLocation :: "env \<Rightarrow> state \<Rightarrow> rat \<Rightarrow> rat \<Rightarrow> rat \<Rightarrow> rat \<Rightarrow> error + lspot list" where
  "getSpotsByLocation e st minLatitude maxLatitude minLongitude maxLongitude =
     (case faults e SpotFind of
        Some err \<Rightarrow> Inl Unknown
      | None \<Rightarrow>
          Inr (map (\<lambda>s. \<lparr>l_doc = s,
                         l_tag = find (\<lambda>t. tag_id t = spot_tag s) (tags st),
                         l_reviews = populate_reviews st (spot_reviews s)\<rparr>)
                   (filter (\<lambda>s. spot_latitude s > minLatitude \<and> spot_latitude s < maxLatitude
                                \<and> spot_longitude s > minLongitude
                                \<and> spot_longitude s < maxLongitude)
                           (spots st))))"

subsection \<open>An example state\<close>

text \<open>
  Three users, one tag and three Spots created by user 1. Spot 20 has two reviews (its
  seed review and one by user 2), Spot 30 only its seed review, and the seed review of
  Spot 40 (id 13) has been removed from the Review collection since.
\<close>

definition ex_users :: "user list" where
  "ex_users = [\<lparr>user_id = 1, user_rep = 0\<rparr>, \<lparr>user_id = 2, user_rep = 13\<rparr>,
               \<lparr>user_id = 3, user_rep = 10\<rparr>]"

definition ex_reviews :: "review list" where
  "ex_reviews =
     [\<lparr>review_id = 10, review_creator = 1, review_description = ''Quiet'',
       review_rating = Num 5\<rparr>,
      \<lparr>review_id = 11, review_creator = 2, review_description = ''Busy'',
       review_rating = Num 3\<rparr>,
      \<lparr>review_id = 12, review_creator = 1, review_description = ''Sunny'',
       review_rating = Num 5\<rparr>]"

definition ex_spot20 :: spot where
  "ex_spot20 = \<lparr>spot_id = 20, spot_title = ''Stata Lounge'', spot_creator = 1,
                 spot_latitude = 42361 / 1000, spot_longitude = - 71091 / 1000,
                 spot_floor = ''1'', spot_tag = 5, spot_reviews = [10, 11],
                 spot_rating = Num 4, spot_timestamp = 0, spot_reports = []\<rparr>"

definition ex_spot30 :: spot where
  "ex_spot30 = \<lparr>spot_id = 30, spot_title = ''Hayden'', spot_creator = 1,
                 spot_latitude = 42359 / 1000, spot_longitude = - 71089 / 1000,
                 spot_floor = ''2'', spot_tag = 5, spot_reviews = [12],
                 spot_rating = Num 5, spot_timestamp = 0, spot_reports = []\<rparr>"

definition ex_spot40 :: spot where
  "ex_spot40 = \<lparr>spot_id = 40, spot_title = ''Killian'', spot_creator = 1,
                 spot_latitude = 42358 / 1000, spot_longitude = - 71092 / 1000,
                 spot_floor = ''1'', spot_tag = 5, spot_reviews = [13],
                 spot_rating = Num 4, spot_timestamp = 0, spot_reports = []\<rparr>"

definition ex_state :: state where
  "ex_state = \<lparr>spots = [ex_spot20, ex_spot30, ex_spot40], reviews = ex_reviews,
                tags = [\<lparr>tag_id = 5, tag_label = ''Study''\<rparr>], users = ex_users,
                next_id = 50, next_ref = 100\<rparr>"

text \<open>No call fails; the time is \<open>t\<close> milliseconds after the Spots were created.\<close>

definition ex_env :: "int \<Rightarrow> env" where
  "ex_env t = \<lparr>faults = (\<lambda>c. None), now = t\<rparr>"

text \<open>As \<open>ex_env\<close>, but the creation of a Tag is refused.\<close>

definition ex_env_no_tag :: env where
  "ex_env_no_tag =
     \<lparr>faults = (\<lambda>c. if c = AddTag then Some (Error ''Invalid label'' BAD_REQUEST) else None),
      now = 1000\<rparr>"

text \<open>As \<open>ex_env\<close>, but the driver fails to save a Spot.\<close>

definition ex_env_no_save :: env where
  "ex_env_no_save =
     \<lparr>faults = (\<lambda>c. if c = SpotSave then Some Unknown else None), now = 1000\<rparr>"

text \<open>
  The example state with a fourth user, whose id 171 has the hex digits \<open>ab\<close> at its end,
  and with the report of that user on Spot 20.
\<close>

definition ex_reported :: state where
  "ex_reported =
     ex_state\<lparr>users := ex_users @ [\<lparr>user_id = 171, user_rep = 4\<rparr>],
              spots := [ex_spot20\<lparr>spot_reports := [\<lparr>reporter = 171, reporterScore = 4\<rparr>]\<rparr>,
                        ex_spot30, ex_spot40]\<rparr>"

section \<open>Properties\<close>

subsection \<open>Lists, lookups and the example state\<close>

declare JSON_stringify_ObjectId_def [simp]

lemmas ex_defs = ex_state_def ex_env_def ex_users_def ex_reviews_def ex_spot20_def
  ex_spot30_def ex_spot40_def ex_env_no_tag_def ex_env_no_save_def ex_reported_def

lemma find_SomeD: "find P xs = Some x \<Longrightarrow> P x \<and> x \<in> set xs"
  by (induction xs) (auto split: if_splits)

lemma find_map_same:
  assumes "\<And>x. P (f x) = P x"
  shows "find P (map f xs) = map_option f (find P xs)"
  using assms by (induction xs) auto

lemma find_filter_neq: "find (\<lambda>s. spot_id s = i) (filter (\<lambda>s. spot_id s \<noteq> i) xs) = None"
  by (induction xs) auto

lemma find_label_None:
  "find (\<lambda>t. tag_label t = label) ts = None \<longleftrightarrow> label \<notin> set (map tag_label ts)"
  by (induction ts) auto

lemma label_cases:
  "label \<in> set (map tag_label ts) \<Longrightarrow> \<exists>tg. find (\<lambda>t. tag_label t = label) ts = Some tg"
  using find_label_None[of label ts] by (cases "find (\<lambda>t. tag_label t = label) ts") auto

lemma find_user_Some:
  "i \<in> set (map user_id us) \<Longrightarrow> \<exists>u. find (\<lambda>u. user_id u = i) us = Some u"
  by (induction us) auto


lemma JSON_stringify_HexText: "JSON_stringify v = HexText u \<Longrightarrow> cast_id v = u"
  by (cases v) auto

subsection \<open>getSpotById\<close>

lemma getSpotById_InrD:
  assumes "getSpotById e st spotId = Inr spot"
  shows "find (\<lambda>s. spot_id s = cast_id spotId) (spots st) = Some (h_doc spot)"
    and "spot_id (h_doc spot) = cast_id spotId"
    and "h_reviews spot = populate_reviews st (spot_reviews (h_doc spot))"
    and "h_creator spot = ObjectId (next_ref st) (spot_creator (h_doc spot))"
  using assms
  by (auto simp: getSpotById_def split: option.splits dest: find_SomeD)

lemma getSpotById_ex20:
  "getSpotById (ex_env t) ex_state (IdString 20)
     = Inr \<lparr>h_doc = ex_spot20, h_creator = ObjectId 100 1,
            h_reviews = [\<lparr>hr_doc = ex_reviews ! 0, hr_creator = Some (ex_users ! 0)\<rparr>,
                         \<lparr>hr_doc = ex_reviews ! 1, hr_creator = Some (ex_users ! 1)\<rparr>]\<rparr>"
  by (simp add: getSpotById_def populate_reviews_def ex_defs)

subsection \<open>reportSpot\<close>




subsection \<open>checkRep\<close>

text \<open>
  What the title class of the source admits: the class of the specification, and the
  six characters between \<open>Z\<close> and \<open>a\<close> (code units 91 to 96: the brackets, the
  backslash, the caret, the underscore and the backquote).
\<close>

lemma title_class_iff:
  "title_class c \<longleftrightarrow> spec_title_class c \<or> (91 \<le> (of_char c :: nat) \<and> (of_char c :: nat) \<le> 96)"
  by (auto simp: title_class_def spec_title_class_def char_range_def)

text \<open>
  The three results of checkRep. The title is judged first: a bad floor is reported only
  for a title that passes. An undefined floor, which the specification admits as absent,
  is reported as a bad floor.
\<close>

lemma undefined_floor_no_match: "\<not> regex_test floor_class ''undefined''"
  by (simp add: regex_test_def floor_class_def char_range_def)

lemma checkRep_title_error:
  "checkRep title floor' = Some ''The title must be a unique name between 3 and 20 characters!''
     \<longleftrightarrow> \<not> (regex_test title_class title \<and> 3 \<le> length title \<and> length title \<le> 20)"
  by (auto simp: checkRep_def Let_def TITLE_LOWER_LIMIT_def TITLE_UPPER_LIMIT_def
      split: floor_arg.splits)

lemma checkRep_floor_error:
  "checkRep title floor' = Some ''The floor must be alphanumerics and cannot be greater than 3 characters!''
     \<longleftrightarrow> (regex_test title_class title \<and> 3 \<le> length title \<and> length title \<le> 20)
         \<and> (floor' = UndefinedFloor \<or> \<not> spec_valid_floor floor')"
  by (auto simp: checkRep_def Let_def TITLE_LOWER_LIMIT_def TITLE_UPPER_LIMIT_def
      FLOOR_UPPER_LIMIT_def spec_valid_floor_def undefined_floor_no_match
      split: floor_arg.splits)

lemma checkRep_accepts:
  "checkRep title floor' = None
     \<longleftrightarrow> (regex_test title_class title \<and> 3 \<le> length title \<and> length title \<le> 20)
         \<and> floor' \<noteq> UndefinedFloor \<and> spec_valid_floor floor'"
  by (auto simp: checkRep_def Let_def TITLE_LOWER_LIMIT_def TITLE_UPPER_LIMIT_def
      FLOOR_UPPER_LIMIT_def spec_valid_floor_def undefined_floor_no_match
      split: floor_arg.splits)

lemma checkRep_undefined_floor:
  assumes "regex_test title_class title" and "3 \<le> length title" and "length title \<le> 20"
  shows "checkRep title UndefinedFloor
           = Some ''The floor must be alphanumerics and cannot be greater than 3 characters!''"
  using assms by (simp add: checkRep_floor_error)

text \<open>
  Claim C7. The claim says that checkRep rejects every title that is not made of
  \<^verbatim>\<open>[A-Za-z0-9\s']\<close> only. The pattern of the source has the range \<^verbatim>\<open>A-z\<close> where
  the floor pattern has \<^verbatim>\<open>A-Z\<close>: every title of 3 to 20 characters between \<open>A\<close> and
  \<open>z\<close>, the six characters between \<open>Z\<close> and \<open>a\<close> included, is accepted (with a null
  floor).
\<close>

theorem checkRep_accepts_A_to_z:
  assumes "list_all (char_range CHR ''A'' CHR ''z'') title"
    and "3 \<le> length title" and "length title \<le> 20"
  shows "checkRep title NullFloor = None"
proof -
  from assms(2) have "title \<noteq> []" by auto
  moreover from assms(1) have "list_all title_class title"
    by (simp add: list_all_iff title_class_def)
  ultimately show ?thesis
    using assms(2,3)
    by (simp add: checkRep_def regex_test_def TITLE_LOWER_LIMIT_def TITLE_UPPER_LIMIT_def)
qed

text \<open>
  The title \<open>a_b\<close> is accepted by checkRep, and is not a valid title of the
  specification.
\<close>

theorem checkRep_accepts_A_to_z_witness:
  "checkRep ''a_b'' NullFloor = None \<and> \<not> spec_valid_title ''a_b''"
proof -
  have "list_all (char_range CHR ''A'' CHR ''z'') ''a_b''"
    by (simp add: char_range_def)
  then have "checkRep ''a_b'' NullFloor = None"
    by (rule checkRep_accepts_A_to_z) simp_all
  moreover have "\<not> spec_valid_title ''a_b''"
    by (simp add: spec_valid_title_def regex_test_def spec_title_class_def char_range_def
        white_space_def)
  ultimately show ?thesis by simp
qed

subsection \<open>getSpotsByLocation\<close>

text \<open>
  Claim C9. Unless the query fails, getSpotsByLocation returns exactly the Spots of the
  collection (in its order) whose latitude is strictly between \<open>minLat\<close> and \<open>maxLat\<close>
  and whose longitude is strictly between \<open>minLng\<close> and \<open>maxLng\<close>: a Spot with a
  coordinate on a bound is not returned.
\<close>

theorem getSpotsByLocation_open_box:
  assumes "faults e SpotFind = None"
  shows "\<exists>found. getSpotsByLocation e st minLat maxLat minLng maxLng = Inr found
           \<and> map l_doc found =
               filter (\<lambda>s. minLat < spot_latitude s \<and> spot_latitude s < maxLat
                          \<and> minLng < spot_longitude s \<and> spot_longitude s < maxLng) (spots st)
           \<and> (\<forall>s. s \<in> set (map l_doc found) \<longleftrightarrow>
                    s \<in> set (spots st)
                    \<and> minLat < spot_latitude s \<and> spot_latitude s < maxLat
                    \<and> minLng < spot_longitude s \<and> spot_longitude s < maxLng)"
proof -
  let ?inside = "\<lambda>s. minLat < spot_latitude s \<and> spot_latitude s < maxLat
                    \<and> minLng < spot_longitude s \<and> spot_longitude s < maxLng"
  obtain found where f: "getSpotsByLocation e st minLat maxLat minLng maxLng = Inr found"
    and m: "map l_doc found = filter ?inside (spots st)"
    using assms by (simp add: getSpotsByLocation_def comp_def)
  have "\<forall>s. s \<in> set (map l_doc found) \<longleftrightarrow> s \<in> set (spots st) \<and> ?inside s"
    unfolding m by auto
  with f m show ?thesis by blast
qed

text \<open>
  In the example state Spot 30 lies on the lower latitude bound of the first box and
  Spot 40 below it: only Spot 20 is returned. In the second box Spot 40 lies on the lower
  longitude bound, its latitude inside: Spots 20 and 30 are returned.
\<close>

theorem getSpotsByLocation_open_box_witness:
  "(\<exists>found. getSpotsByLocation (ex_env 1000) ex_state
              (42359 / 1000) (42362 / 1000) (- 71092 / 1000) (- 71000 / 1000) = Inr found
      \<and> map l_doc found = [ex_spot20]
      \<and> spot_latitude ex_spot30 = 42359 / 1000
      \<and> spot_longitude ex_spot40 = - 71092 / 1000)
   \<and> (\<exists>found. getSpotsByLocation (ex_env 1000) ex_state
              (42357 / 1000) (42362 / 1000) (- 71092 / 1000) (- 71000 / 1000) = Inr found
      \<and> map l_doc found = [ex_spot20, ex_spot30]
      \<and> 42357 / 1000 < spot_latitude ex_spot40 \<and> spot_latitude ex_spot40 < 42362 / 1000)"
proof -
  have ok: "faults (ex_env 1000) SpotFind = None" by (simp add: ex_env_def)
  from getSpotsByLocation_open_box[OF ok, of ex_state "42359 / 1000" "42362 / 1000"
      "- 71092 / 1000" "- 71000 / 1000"]
  obtain found where f: "getSpotsByLocation (ex_env 1000) ex_state
              (42359 / 1000) (42362 / 1000) (- 71092 / 1000) (- 71000 / 1000) = Inr found"
    and m: "map l_doc found =
              filter (\<lambda>s. 42359 / 1000 < spot_latitude s \<and> spot_latitude s < 42362 / 1000
                         \<and> - 71092 / 1000 < spot_longitude s
                         \<and> spot_longitude s < - 71000 / 1000) (spots ex_state)"
    by blast
  have "map l_doc found = [ex_spot20]"
    unfolding m by (simp add: ex_state_def ex_spot20_def ex_spot30_def ex_spot40_def)
  with f have a: "\<exists>found. getSpotsByLocation (ex_env 1000) ex_state
              (42359 / 1000) (42362 / 1000) (- 71092 / 1000) (- 71000 / 1000) = Inr found
      \<and> map l_doc found = [ex_spot20]
      \<and> spot_latitude ex_spot30 = 42359 / 1000
      \<and> spot_longitude ex_spot40 = - 71092 / 1000"
    by (simp add: ex_spot30_def ex_spot40_def)
  from getSpotsByLocation_open_box[OF ok, of ex_state "42357 / 1000" "42362 / 1000"
      "- 71092 / 1000" "- 71000 / 1000"]
  obtain found2 where f2: "getSpotsByLocation (ex_env 1000) ex_state
              (42357 / 1000) (42362 / 1000) (- 71092 / 1000) (- 71000 / 1000) = Inr found2"
    and m2: "map l_doc found2 =
              filter (\<lambda>s. 42357 / 1000 < spot_latitude s \<and> spot_latitude s < 42362 / 1000
                         \<and> - 71092 / 1000 < spot_longitude s
                         \<and> spot_longitude s < - 71000 / 1000) (spots ex_state)"
    by blast
  have "map l_doc found2 = [ex_spot20, ex_spot30]"
    unfolding m2 by (simp add: ex_state_def ex_spot20_def ex_spot30_def ex_spot40_def)
  with f2 have b: "\<exists>found. getSpotsByLocation (ex_env 1000) ex_state
              (42357 / 1000) (42362 / 1000) (- 71092 / 1000) (- 71000 / 1000) = Inr found
      \<and> map l_doc found = [ex_spot20, ex_spot30]
      \<and> 42357 / 1000 < spot_latitude ex_spot40 \<and> spot_latitude ex_spot40 < 42362 / 1000"
    by (simp add: ex_spot40_def)
  from a b show ?thesis by (rule conjI)
qed

subsection \<open>The creation saga\<close>

lemma removeIfInvalid_frame:
  assumes "removeIfInvalid e st reviewId tagId createdTag err = (res, st')"
  shows "res = Inl err" and "users st' = users st" and "spots st' = spots st"
    and "\<not> createdTag \<Longrightarrow> tags st' = tags st"
  using assms
  by (auto simp: removeIfInvalid_def reviewModel_remove_def tagModel_remove_def Let_def
      split: if_splits option.splits)

lemma removeIfInvalid_removes:
  assumes "faults e ReviewRemove = None" and "faults e TagRemove = None"
  shows "removeIfInvalid e st reviewId tagId createdTag err =
           (Inl err, st\<lparr>reviews := filter (\<lambda>r. review_id r \<noteq> reviewId) (reviews st),
                        tags := (if createdTag then filter (\<lambda>t. tag_id t \<noteq> tagId) (tags st)
                                 else tags st)\<rparr>)"
  using assms
  by (simp add: removeIfInvalid_def reviewModel_remove_def tagModel_remove_def Let_def)

lemma removeIfInvalid_not_Inr: "removeIfInvalid e st reviewId tagId createdTag err \<noteq> (Inr s, st')"
  by (simp add: removeIfInvalid_def Let_def)

lemma Reviews_addReview_InrD:
  assumes "Reviews_addReview e st creatorId description rating = (Inr rv, st1)"
  shows "rv = \<lparr>review_id = next_id st, review_creator = cast_id creatorId,
               review_description = description, review_rating = rating\<rparr>"
    and "st1 = st\<lparr>reviews := reviews st @ [rv], next_id := next_id st + 1\<rparr>"
  using assms by (auto simp: Reviews_addReview_def Let_def split: option.splits)

lemma addReview_ex:
  "faults e AddReview = None \<Longrightarrow>
   Reviews_addReview e ex_state (IdString 2) ''Calm'' (Num 4)
     = (Inr \<lparr>review_id = 50, review_creator = 2, review_description = ''Calm'',
             review_rating = Num 4\<rparr>,
        ex_state\<lparr>reviews := ex_reviews @
                    [\<lparr>review_id = 50, review_creator = 2, review_description = ''Calm'',
                      review_rating = Num 4\<rparr>],
                  next_id := 51\<rparr>)"
  by (simp add: Reviews_addReview_def Let_def ex_state_def)

lemma Users_updateRep_ok:
  assumes "faults e UpdateRep = None" and "cast_id userId \<in> set (map user_id (users st))"
  shows "Users_updateRep e st userId True =
           (None, st\<lparr>users := map (\<lambda>u. if user_id u = cast_id userId
                                         then u\<lparr>user_rep := user_rep u + 1\<rparr> else u)
                                   (users st)\<rparr>)"
proof -
  obtain u where "find (\<lambda>u. user_id u = cast_id userId) (users st) = Some u"
    using find_user_Some[OF assms(2)] by blast
  then show ?thesis using assms(1) by (simp add: Users_updateRep_def)
qed

lemma Users_updateRep_frame:
  assumes "Users_updateRep e st userId increase = (res, st1)"
  shows "reviews st1 = reviews st" and "spots st1 = spots st" and "tags st1 = tags st"
  using assms by (auto simp: Users_updateRep_def split: option.splits)

lemma spot_save_InrD:
  assumes "spot_save e st s0 = (Inr s, st')"
  shows "s = s0" and "st' = st\<lparr>spots := spots st @ [s0]\<rparr>"
  using assms by (auto simp: spot_save_def split: option.splits if_splits)

lemma checkSpot_duplicate:
  assumes valid: "checkRep title floor' = None"
    and rep_ok: "faults e UpdateRep = None" "cast_id creatorId \<in> set (map user_id (users st))"
    and save_ok: "faults e SpotSave = None"
    and dup: "title \<in> set (map spot_title (spots st))"
  shows "checkSpot e st title creatorId location floor' tg rv createdTag =
           removeIfInvalid e
             (st\<lparr>next_id := next_id st + 1,
                 users := map (\<lambda>u. if user_id u = cast_id creatorId
                                    then u\<lparr>user_rep := user_rep u + 1\<rparr> else u) (users st)\<rparr>)
             (review_id rv) (tag_id tg) createdTag
             (Error ''A Spot already exists with this title.'' BAD_REQUEST)"
proof -
  have "Users_updateRep e (st\<lparr>next_id := next_id st + 1\<rparr>) creatorId True =
          (None, st\<lparr>next_id := next_id st + 1,
                 users := map (\<lambda>u. if user_id u = cast_id creatorId
                                    then u\<lparr>user_rep := user_rep u + 1\<rparr> else u) (users st)\<rparr>)"
    using Users_updateRep_ok[of e creatorId "st\<lparr>next_id := next_id st + 1\<rparr>"] rep_ok by simp
  then show ?thesis
    using valid save_ok dup by (simp add: checkSpot_def Let_def spot_save_def)
qed

lemma checkSpot_save_failure:
  assumes valid: "checkRep title floor' = None"
    and rep_ok: "faults e UpdateRep = None" "cast_id creatorId \<in> set (map user_id (users st))"
    and fails: "faults e SpotSave \<noteq> None \<or> title \<in> set (map spot_title (spots st))"
  shows "\<exists>err. checkSpot e st title creatorId location floor' tg rv createdTag =
           removeIfInvalid e
             (st\<lparr>next_id := next_id st + 1,
                 users := map (\<lambda>u. if user_id u = cast_id creatorId
                                    then u\<lparr>user_rep := user_rep u + 1\<rparr> else u) (users st)\<rparr>)
             (review_id rv) (tag_id tg) createdTag err"
proof -
  have "Users_updateRep e (st\<lparr>next_id := next_id st + 1\<rparr>) creatorId True =
          (None, st\<lparr>next_id := next_id st + 1,
                 users := map (\<lambda>u. if user_id u = cast_id creatorId
                                    then u\<lparr>user_rep := user_rep u + 1\<rparr> else u) (users st)\<rparr>)"
    using Users_updateRep_ok[of e creatorId "st\<lparr>next_id := next_id st + 1\<rparr>"] rep_ok by simp
  then show ?thesis
    using valid fails by (auto simp: checkSpot_def Let_def spot_save_def split: option.splits)
qed

lemma checkSpot_InrD:
  assumes "checkSpot e st title creatorId location floor' tg rv createdTag = (Inr s, st')"
  shows "spot_rating s = review_rating rv" and "spot_reviews s = [review_id rv]"
    and "s \<in> set (spots st')" and "reviews st' = reviews st"
proof -
  from assms have valid: "checkRep title floor' = None"
    by (auto simp: checkSpot_def removeIfInvalid_not_Inr split: option.splits)
  obtain res st1 where u: "Users_updateRep e (st\<lparr>next_id := next_id st + 1\<rparr>) creatorId True = (res, st1)"
    by (cases "Users_updateRep e (st\<lparr>next_id := next_id st + 1\<rparr>) creatorId True")
  from assms valid u have res: "res = None"
    by (cases res) (auto simp: checkSpot_def Let_def removeIfInvalid_not_Inr split: if_splits)
  let ?s0 = "\<lparr>spot_id = next_id st, spot_title = title,
                        spot_creator = cast_id creatorId,
                        spot_latitude = fst location, spot_longitude = snd location,
                        spot_floor = (case floor' of Floor f \<Rightarrow> f | _ \<Rightarrow> ''1''),
                        spot_tag = tag_id tg, spot_reviews = [review_id rv],
                        spot_rating = review_rating rv, spot_timestamp = now e,
                        spot_reports = []\<rparr>"
  from assms valid u res have sv: "spot_save e st1 ?s0 = (Inr s, st')"
    by (auto simp: checkSpot_def Let_def removeIfInvalid_not_Inr
        split: prod.splits sum.splits save_error.splits)
  note d = spot_save_InrD[OF sv] and f = Users_updateRep_frame[OF u]
  show "spot_rating s = review_rating rv" using d(1) by simp
  show "spot_reviews s = [review_id rv]" using d(1) by simp
  show "s \<in> set (spots st')" using d by simp
  show "reviews st' = reviews st" using d(2) f(1) by simp
qed

lemma addSpot_existing_tag:
  assumes rv: "Reviews_addReview e st creatorId description rating = (Inr rv, st1)"
    and tag_ok: "faults e GetTagByLabel = None"
    and found: "find (\<lambda>t. tag_label t = label) (tags st) = Some tg"
  shows "addSpot e st title creatorId location floor' label description rating
           = checkSpot e st1 title creatorId location floor' tg rv False"
proof -
  have "tags st1 = tags st" using Reviews_addReview_InrD(2)[OF rv] by simp
  then show ?thesis
    using rv tag_ok found by (simp add: addSpot_def Tags_getTagByLabel_def)
qed

lemma addSpot_new_tag:
  assumes rv: "Reviews_addReview e st creatorId description rating = (Inr rv, st1)"
    and tag_ok: "faults e GetTagByLabel = None" "faults e AddTag = None"
    and missing: "label \<notin> set (map tag_label (tags st))"
  shows "addSpot e st title creatorId location floor' label description rating
           = checkSpot e
               (st1\<lparr>tags := tags st1 @ [\<lparr>tag_id = next_id st1, tag_label = label\<rparr>],
                    next_id := next_id st1 + 1\<rparr>)
               title creatorId location floor' \<lparr>tag_id = next_id st1, tag_label = label\<rparr> rv True"
proof -
  have "tags st1 = tags st" using Reviews_addReview_InrD(2)[OF rv] by simp
  moreover have "find (\<lambda>t. tag_label t = label) (tags st) = None"
    using missing by (simp add: find_label_None)
  ultimately show ?thesis
    using rv tag_ok
    by (simp add: addSpot_def Tags_getTagByLabel_def Tags_addTag_def Let_def NOT_FOUND_def)
qed

text \<open>
  Claim C4. The seed Review has been created, the Tag is not found and its creation
  fails. Then addSpot surfaces the error of the Tag creation and, when the driver carries
  out the removal, the seed Review does not exist afterwards: the Review collection is
  what it was before the call without any document of the Review's id. No Spot is
  inserted.
\<close>

theorem addSpot_tag_failure_compensates:
  assumes rv: "Reviews_addReview e st creatorId description rating = (Inr rv, st1)"
    and missing: "Tags_getTagByLabel e st1 label = Inl err" "has_http_status err"
    and refused: "Tags_addTag e st1 label False = (Inl err2, st2)"
    and remove_ok: "faults e ReviewRemove = None"
  shows "\<exists>st'. addSpot e st title creatorId location floor' label description rating
                 = (Inl (errorHandler err2), st')
             \<and> review_id rv \<notin> set (map review_id (reviews st'))
             \<and> reviews st' = filter (\<lambda>r. review_id r \<noteq> review_id rv) (reviews st)
             \<and> spots st' = spots st"
proof -
  note d = Reviews_addReview_InrD[OF rv]
  have st2: "st2 = st1"
    using refused by (auto simp: Tags_addTag_def Let_def split: option.splits)
  show ?thesis
    using rv missing refused remove_ok
    by (auto simp: addSpot_def errorHandler_def reviewModel_remove_def st2 d(2))
qed

text \<open>
  User 2 creates a Spot with the new label \<open>Nap\<close> while the creation of Tags is
  refused: the error is the one of the Tag creation, Review 50 is gone, and the Spots are
  as before.
\<close>

theorem addSpot_tag_failure_compensates_witness:
  "\<exists>st'. addSpot ex_env_no_tag ex_state ''Barker Dome'' (IdString 2)
            (42360 / 1000, - 71090 / 1000) NullFloor ''Nap'' ''Calm'' (Num 4)
          = (Inl (Error ''Invalid label'' BAD_REQUEST), st')
      \<and> 50 \<notin> set (map review_id (reviews st'))
      \<and> reviews st' = ex_reviews
      \<and> spots st' = [ex_spot20, ex_spot30, ex_spot40]"
proof -
  let ?rv = "\<lparr>review_id = 50, review_creator = 2, review_description = ''Calm'',
              review_rating = Num 4\<rparr>"
  let ?st1 = "ex_state\<lparr>reviews := ex_reviews @ [?rv], next_id := 51\<rparr>"
  have rv: "Reviews_addReview ex_env_no_tag ex_state (IdString 2) ''Calm'' (Num 4) = (Inr ?rv, ?st1)"
    by (rule addReview_ex) (simp add: ex_env_no_tag_def)
  have missing: "Tags_getTagByLabel ex_env_no_tag ?st1 ''Nap'' = Inl (Error ''No such tag!'' NOT_FOUND)"
    by (simp add: Tags_getTagByLabel_def ex_env_no_tag_def ex_state_def)
  have status: "has_http_status (Error ''No such tag!'' NOT_FOUND)"
    by (simp add: NOT_FOUND_def)
  have refused: "Tags_addTag ex_env_no_tag ?st1 ''Nap'' False
                   = (Inl (Error ''Invalid label'' BAD_REQUEST), ?st1)"
    by (simp add: Tags_addTag_def ex_env_no_tag_def)
  have remove_ok: "faults ex_env_no_tag ReviewRemove = None"
    by (simp add: ex_env_no_tag_def)
  from addSpot_tag_failure_compensates[OF rv missing status refused remove_ok,
      of "''Barker Dome''" "(42360 / 1000, - 71090 / 1000)" NullFloor]
  obtain st' where
    r: "addSpot ex_env_no_tag ex_state ''Barker Dome'' (IdString 2)
            (42360 / 1000, - 71090 / 1000) NullFloor ''Nap'' ''Calm'' (Num 4)
          = (Inl (errorHandler (Error ''Invalid label'' BAD_REQUEST)), st')"
    and gone: "review_id ?rv \<notin> set (map review_id (reviews st'))"
    and rs: "reviews st' = filter (\<lambda>r. review_id r \<noteq> review_id ?rv) (reviews ex_state)"
    and sp: "spots st' = spots ex_state"
    by blast
  have "reviews st' = ex_reviews"
    unfolding rs by (simp add: ex_state_def ex_reviews_def)
  with r gone sp show ?thesis
    by (simp add: errorHandler_def BAD_REQUEST_def ex_state_def)
qed

text \<open>
  Claim C5. The seed Review has been created, no collaborator and no driver call fails,
  the title and the floor are valid, the creator exists, and a Spot with this title is
  stored already. Then addSpot fails with the BadRequest conflict error, the new Review
  is removed, and the Spot collection is unchanged. If a Tag with the label existed, the
  Tag collection is unchanged (the Tag is not deleted); if not, the Tag this call created
  is removed again.
\<close>

theorem addSpot_duplicate_title_compensates:
  assumes rv: "Reviews_addReview e st creatorId description rating = (Inr rv, st1)"
    and tag_ok: "faults e GetTagByLabel = None" "faults e AddTag = None"
    and valid: "checkRep title floor' = None"
    and rep_ok: "faults e UpdateRep = None" "cast_id creatorId \<in> set (map user_id (users st))"
    and save_ok: "faults e SpotSave = None"
    and dup: "title \<in> set (map spot_title (spots st))"
    and remove_ok: "faults e ReviewRemove = None" "faults e TagRemove = None"
  shows "\<exists>st'. addSpot e st title creatorId location floor' label description rating
                 = (Inl (Error ''A Spot already exists with this title.'' BAD_REQUEST), st')
             \<and> reviews st' = filter (\<lambda>r. review_id r \<noteq> review_id rv) (reviews st)
             \<and> review_id rv \<notin> set (map review_id (reviews st'))
             \<and> (label \<in> set (map tag_label (tags st)) \<longrightarrow> tags st' = tags st)
             \<and> (label \<notin> set (map tag_label (tags st)) \<longrightarrow>
                  tags st' = filter (\<lambda>t. tag_id t \<noteq> next_id st1) (tags st)
                  \<and> label \<notin> set (map tag_label (tags st')))
             \<and> spots st' = spots st"
proof (cases "label \<in> set (map tag_label (tags st))")
  case True
  then obtain tg where tg: "find (\<lambda>t. tag_label t = label) (tags st) = Some tg"
    using label_cases by blast
  note d = Reviews_addReview_InrD[OF rv]
  have st1: "users st1 = users st" "spots st1 = spots st" "faults e = faults e"
    using d(2) by simp_all
  have "addSpot e st title creatorId location floor' label description rating
          = checkSpot e st1 title creatorId location floor' tg rv False"
    by (rule addSpot_existing_tag[OF rv tag_ok(1) tg])
  also have "\<dots> = removeIfInvalid e
             (st1\<lparr>next_id := next_id st1 + 1,
                 users := map (\<lambda>u. if user_id u = cast_id creatorId
                                    then u\<lparr>user_rep := user_rep u + 1\<rparr> else u) (users st1)\<rparr>)
             (review_id rv) (tag_id tg) False
             (Error ''A Spot already exists with this title.'' BAD_REQUEST)"
    using valid rep_ok save_ok dup st1 by (intro checkSpot_duplicate) simp_all
  finally show ?thesis
    using True remove_ok d by (auto simp: removeIfInvalid_removes)
next
  case False
  note d = Reviews_addReview_InrD[OF rv]
  let ?t = "\<lparr>tag_id = next_id st1, tag_label = label\<rparr>"
  let ?st2 = "st1\<lparr>tags := tags st1 @ [?t], next_id := next_id st1 + 1\<rparr>"
  have st2: "users ?st2 = users st" "spots ?st2 = spots st"
    using d(2) by simp_all
  have "addSpot e st title creatorId location floor' label description rating
          = checkSpot e ?st2 title creatorId location floor' ?t rv True"
    by (rule addSpot_new_tag[OF rv tag_ok False])
  also have "\<dots> = removeIfInvalid e
             (?st2\<lparr>next_id := next_id ?st2 + 1,
                 users := map (\<lambda>u. if user_id u = cast_id creatorId
                                    then u\<lparr>user_rep := user_rep u + 1\<rparr> else u) (users ?st2)\<rparr>)
             (review_id rv) (tag_id ?t) True
             (Error ''A Spot already exists with this title.'' BAD_REQUEST)"
    using valid rep_ok save_ok dup st2 by (intro checkSpot_duplicate) simp_all
  finally show ?thesis
    using False remove_ok d by (auto simp: removeIfInvalid_removes)
qed

text \<open>
  User 2 creates a second Spot titled \<open>Hayden\<close>, once with the stored label
  \<open>Study\<close> and once with the new label \<open>Nap\<close>: both calls fail with the conflict error
  and leave reviews, tags and Spots as they were.
\<close>

theorem addSpot_duplicate_title_compensates_witness:
  "(\<exists>st'. addSpot (ex_env 1000) ex_state ''Hayden'' (IdString 2)
            (42360 / 1000, - 71090 / 1000) NullFloor ''Study'' ''Calm'' (Num 4)
          = (Inl (Error ''A Spot already exists with this title.'' BAD_REQUEST), st')
      \<and> reviews st' = ex_reviews
      \<and> tags st' = [\<lparr>tag_id = 5, tag_label = ''Study''\<rparr>]
      \<and> spots st' = [ex_spot20, ex_spot30, ex_spot40])
   \<and> (\<exists>st'. addSpot (ex_env 1000) ex_state ''Hayden'' (IdString 2)
            (42360 / 1000, - 71090 / 1000) NullFloor ''Nap'' ''Calm'' (Num 4)
          = (Inl (Error ''A Spot already exists with this title.'' BAD_REQUEST), st')
      \<and> reviews st' = ex_reviews
      \<and> tags st' = [\<lparr>tag_id = 5, tag_label = ''Study''\<rparr>]
      \<and> spots st' = [ex_spot20, ex_spot30, ex_spot40])"
proof -
  let ?rv = "\<lparr>review_id = 50, review_creator = 2, review_description = ''Calm'',
              review_rating = Num 4\<rparr>"
  let ?st1 = "ex_state\<lparr>reviews := ex_reviews @ [?rv], next_id := 51\<rparr>"
  have f: "faults (ex_env 1000) c = None" for c by (simp add: ex_env_def)
  have rv: "Reviews_addReview (ex_env 1000) ex_state (IdString 2) ''Calm'' (Num 4) = (Inr ?rv, ?st1)"
    by (rule addReview_ex) (rule f)
  have valid: "checkRep ''Hayden'' NullFloor = None"
    by (simp add: checkRep_def regex_test_def title_class_def char_range_def
        TITLE_LOWER_LIMIT_def TITLE_UPPER_LIMIT_def)
  have usr: "cast_id (IdString 2) \<in> set (map user_id (users ex_state))"
    by (simp add: ex_state_def ex_users_def)
  have dup: "''Hayden'' \<in> set (map spot_title (spots ex_state))"
    by (simp add: ex_state_def ex_spot30_def)
  note t = addSpot_duplicate_title_compensates[OF rv f f valid f usr f dup f f,
      of "(42360 / 1000, - 71090 / 1000)"]
  have rs: "filter (\<lambda>r. review_id r \<noteq> review_id ?rv) (reviews ex_state) = ex_reviews"
    by (simp add: ex_state_def ex_reviews_def)
  have a: "\<exists>st'. addSpot (ex_env 1000) ex_state ''Hayden'' (IdString 2)
            (42360 / 1000, - 71090 / 1000) NullFloor ''Study'' ''Calm'' (Num 4)
          = (Inl (Error ''A Spot already exists with this title.'' BAD_REQUEST), st')
      \<and> reviews st' = ex_reviews
      \<and> tags st' = [\<lparr>tag_id = 5, tag_label = ''Study''\<rparr>]
      \<and> spots st' = [ex_spot20, ex_spot30, ex_spot40]"
    using t[of "''Study''"] unfolding rs by (auto simp: ex_state_def)
  have b: "\<exists>st'. addSpot (ex_env 1000) ex_state ''Hayden'' (IdString 2)
            (42360 / 1000, - 71090 / 1000) NullFloor ''Nap'' ''Calm'' (Num 4)
          = (Inl (Error ''A Spot already exists with this title.'' BAD_REQUEST), st')
      \<and> reviews st' = ex_reviews
      \<and> tags st' = [\<lparr>tag_id = 5, tag_label = ''Study''\<rparr>]
      \<and> spots st' = [ex_spot20, ex_spot30, ex_spot40]"
    using t[of "''Nap''"] unfolding rs by (auto simp: ex_state_def)
  from a b show ?thesis by blast
qed

text \<open>
  Claim C8. When addSpot succeeds, the Spot it returns has the rating of the seed Review
  that the call created first (which is the rating passed to addSpot), and its list of
  reviews holds exactly the id of that Review; the Review and the Spot are stored.
\<close>

theorem addSpot_success_seed_review:
  assumes "addSpot e st title creatorId location floor' label description rating = (Inr s, st')"
  shows "\<exists>rv st1. Reviews_addReview e st creatorId description rating = (Inr rv, st1)
           \<and> review_rating rv = rating
           \<and> spot_rating s = review_rating rv
           \<and> spot_reviews s = [review_id rv]
           \<and> length (spot_reviews s) = 1
           \<and> rv \<in> set (reviews st')
           \<and> s \<in> set (spots st')"
proof -
  obtain r st1 where a: "Reviews_addReview e st creatorId description rating = (r, st1)"
    by (cases "Reviews_addReview e st creatorId description rating")
  from assms a obtain rv where r: "r = Inr rv"
    by (cases r) (auto simp: addSpot_def)
  note d = Reviews_addReview_InrD[OF a[unfolded r]]
  have "\<exists>stT tg createdTag. checkSpot e stT title creatorId location floor' tg rv createdTag = (Inr s, st')
          \<and> rv \<in> set (reviews stT)"
  proof (cases "Tags_getTagByLabel e st1 label")
    case (Inr tg)
    with assms a r d(2) show ?thesis
      by (intro exI[of _ st1] exI[of _ tg] exI[of _ False]) (simp add: addSpot_def)
  next
    case (Inl err)
    obtain r2 st2 where t: "Tags_addTag e st1 label False = (r2, st2)"
      by (cases "Tags_addTag e st1 label False")
    from assms a r Inl t obtain newTag where r2: "r2 = Inr newTag" and h: "has_http_status err"
      by (cases r2) (auto simp: addSpot_def split: if_splits)
    from t r2 have "reviews st2 = reviews st1"
      by (auto simp: Tags_addTag_def Let_def split: option.splits)
    with assms a r Inl t r2 h d(2) show ?thesis
      by (intro exI[of _ st2] exI[of _ newTag] exI[of _ True]) (simp add: addSpot_def)
  qed
  then obtain stT tg createdTag where
    c: "checkSpot e stT title creatorId location floor' tg rv createdTag = (Inr s, st')"
    and m: "rv \<in> set (reviews stT)" by blast
  note k = checkSpot_InrD[OF c]
  show ?thesis
    using a r d(1) k m by simp
qed

text \<open>
  User 2 creates the Spot \<open>Barker Dome\<close> with rating 4: the call succeeds, the Spot
  has rating 4 and the one review 50.
\<close>

theorem addSpot_success_seed_review_witness:
  "\<exists>s st'. addSpot (ex_env 1000) ex_state ''Barker Dome'' (IdString 2)
            (42360 / 1000, - 71090 / 1000) NullFloor ''Study'' ''Calm'' (Num 4) = (Inr s, st')
      \<and> spot_rating s = Num 4 \<and> spot_reviews s = [50]"
proof -
  have f: "faults (ex_env 1000) c = None" for c by (simp add: ex_env_def)
  have valid: "checkRep ''Barker Dome'' NullFloor = None"
    by (simp add: checkRep_def regex_test_def title_class_def char_range_def white_space_def
        TITLE_LOWER_LIMIT_def TITLE_UPPER_LIMIT_def)
  let ?rv = "\<lparr>review_id = 50, review_creator = 2, review_description = ''Calm'',
              review_rating = Num 4\<rparr>"
  let ?st1 = "ex_state\<lparr>reviews := ex_reviews @ [?rv], next_id := 51\<rparr>"
  have rv: "Reviews_addReview (ex_env 1000) ex_state (IdString 2) ''Calm'' (Num 4) = (Inr ?rv, ?st1)"
    by (rule addReview_ex) (rule f)
  have tg: "find (\<lambda>t. tag_label t = ''Study'') (tags ex_state)
              = Some \<lparr>tag_id = 5, tag_label = ''Study''\<rparr>"
    by (simp add: ex_state_def)
  have "\<exists>s st'. checkSpot (ex_env 1000) ?st1 ''Barker Dome'' (IdString 2)
            (42360 / 1000, - 71090 / 1000) NullFloor \<lparr>tag_id = 5, tag_label = ''Study''\<rparr> ?rv False
          = (Inr s, st')"
    by (simp add: checkSpot_def valid Let_def Users_updateRep_def spot_save_def f ex_state_def
        ex_users_def ex_spot20_def ex_spot30_def ex_spot40_def)
  then have "\<exists>s st'. addSpot (ex_env 1000) ex_state ''Barker Dome'' (IdString 2)
            (42360 / 1000, - 71090 / 1000) NullFloor ''Study'' ''Calm'' (Num 4) = (Inr s, st')"
    unfolding addSpot_existing_tag[OF rv f tg] .
  then obtain s st' where
    r: "addSpot (ex_env 1000) ex_state ''Barker Dome'' (IdString 2)
            (42360 / 1000, - 71090 / 1000) NullFloor ''Study'' ''Calm'' (Num 4) = (Inr s, st')"
    by blast
  from addSpot_success_seed_review[OF r] r show ?thesis
    unfolding rv by auto
qed

text \<open>
  Claim C10. The seed Review has been created, the Tag is resolved, title and floor are
  valid and the creator's reputation has been incremented, and then saving the Spot fails
  (a Spot with the title exists, or the driver fails); the driver carries out the
  removals. Then addSpot fails, and the compensation has removed the seed Review and, if
  this call created the Tag, that Tag, and nothing else: the Review collection is the one
  before the call (without any document of the new Review's id), the Tag collection is
  unchanged when the label existed and is the one before the call otherwise (without any
  document of the new Tag's id), no Spot is inserted, and the User collection is the one
  before the call with the creator's reputation one higher: the increment is not taken
  back.
\<close>

theorem addSpot_failure_keeps_reputation_increment:
  assumes rv: "Reviews_addReview e st creatorId description rating = (Inr rv, st1)"
    and tag_ok: "faults e GetTagByLabel = None" "faults e AddTag = None"
    and valid: "checkRep title floor' = None"
    and rep_ok: "faults e UpdateRep = None" "cast_id creatorId \<in> set (map user_id (users st))"
    and fails: "faults e SpotSave \<noteq> None \<or> title \<in> set (map spot_title (spots st))"
    and remove_ok: "faults e ReviewRemove = None" "faults e TagRemove = None"
  shows "\<exists>err st'. addSpot e st title creatorId location floor' label description rating
                     = (Inl err, st')
             \<and> users st' = map (\<lambda>u. if user_id u = cast_id creatorId
                                      then u\<lparr>user_rep := user_rep u + 1\<rparr> else u) (users st)
             \<and> reviews st' = filter (\<lambda>r. review_id r \<noteq> review_id rv) (reviews st)
             \<and> review_id rv \<notin> set (map review_id (reviews st'))
             \<and> (label \<in> set (map tag_label (tags st)) \<longrightarrow> tags st' = tags st)
             \<and> (label \<notin> set (map tag_label (tags st)) \<longrightarrow>
                  tags st' = filter (\<lambda>t. tag_id t \<noteq> next_id st1) (tags st)
                  \<and> label \<notin> set (map tag_label (tags st')))
             \<and> spots st' = spots st"
proof (cases "label \<in> set (map tag_label (tags st))")
  case True
  then obtain tg where tg: "find (\<lambda>t. tag_label t = label) (tags st) = Some tg"
    using label_cases by blast
  note d = Reviews_addReview_InrD[OF rv]
  have st1: "users st1 = users st" "spots st1 = spots st"
    using d(2) by simp_all
  have eq: "addSpot e st title creatorId location floor' label description rating
          = checkSpot e st1 title creatorId location floor' tg rv False"
    by (rule addSpot_existing_tag[OF rv tag_ok(1) tg])
  have "\<exists>err. checkSpot e st1 title creatorId location floor' tg rv False =
       removeIfInvalid e
         (st1\<lparr>next_id := next_id st1 + 1,
              users := map (\<lambda>u. if user_id u = cast_id creatorId
                                 then u\<lparr>user_rep := user_rep u + 1\<rparr> else u) (users st1)\<rparr>)
         (review_id rv) (tag_id tg) False err"
    using valid rep_ok fails st1 by (intro checkSpot_save_failure) simp_all
  then obtain err where
    "addSpot e st title creatorId location floor' label description rating =
       removeIfInvalid e
         (st1\<lparr>next_id := next_id st1 + 1,
              users := map (\<lambda>u. if user_id u = cast_id creatorId
                                 then u\<lparr>user_rep := user_rep u + 1\<rparr> else u) (users st1)\<rparr>)
         (review_id rv) (tag_id tg) False err"
    using eq by auto
  then show ?thesis
    using True remove_ok d by (auto simp: removeIfInvalid_removes)
next
  case False
  note d = Reviews_addReview_InrD[OF rv]
  let ?t = "\<lparr>tag_id = next_id st1, tag_label = label\<rparr>"
  let ?st2 = "st1\<lparr>tags := tags st1 @ [?t], next_id := next_id st1 + 1\<rparr>"
  have st2: "users ?st2 = users st" "spots ?st2 = spots st"
    using d(2) by simp_all
  have eq: "addSpot e st title creatorId location floor' label description rating
          = checkSpot e ?st2 title creatorId location floor' ?t rv True"
    by (rule addSpot_new_tag[OF rv tag_ok False])
  have "\<exists>err. checkSpot e ?st2 title creatorId location floor' ?t rv True =
       removeIfInvalid e
         (?st2\<lparr>next_id := next_id ?st2 + 1,
              users := map (\<lambda>u. if user_id u = cast_id creatorId
                                 then u\<lparr>user_rep := user_rep u + 1\<rparr> else u) (users ?st2)\<rparr>)
         (review_id rv) (tag_id ?t) True err"
    using valid rep_ok fails st2 by (intro checkSpot_save_failure) simp_all
  then obtain err where
    "addSpot e st title creatorId location floor' label description rating =
       removeIfInvalid e
         (?st2\<lparr>next_id := next_id ?st2 + 1,
              users := map (\<lambda>u. if user_id u = cast_id creatorId
                                 then u\<lparr>user_rep := user_rep u + 1\<rparr> else u) (users ?st2)\<rparr>)
         (review_id rv) (tag_id ?t) True err"
    using eq by auto
  then show ?thesis
    using False remove_ok d by (auto simp: removeIfInvalid_removes)
qed

text \<open>
  User 2 (reputation 13) creates a second Spot titled \<open>Hayden\<close> with the stored label
  \<open>Study\<close>, and creates the Spot \<open>Barker Dome\<close> with the new label \<open>Nap\<close> while the driver
  fails to save Spots: both calls fail, and afterwards the reputation of user 2 is 14,
  while reviews, tags and Spots are as before the call.
\<close>

theorem addSpot_failure_keeps_reputation_increment_witness:
  "(\<exists>err st'. addSpot (ex_env 1000) ex_state ''Hayden'' (IdString 2)
            (42360 / 1000, - 71090 / 1000) NullFloor ''Study'' ''Calm'' (Num 4) = (Inl err, st')
      \<and> map user_rep (users st') = [0, 14, 10]
      \<and> reviews st' = ex_reviews
      \<and> tags st' = [\<lparr>tag_id = 5, tag_label = ''Study''\<rparr>]
      \<and> spots st' = [ex_spot20, ex_spot30, ex_spot40])
   \<and> (\<exists>err st'. addSpot ex_env_no_save ex_state ''Barker Dome'' (IdString 2)
            (42360 / 1000, - 71090 / 1000) NullFloor ''Nap'' ''Calm'' (Num 4) = (Inl err, st')
      \<and> map user_rep (users st') = [0, 14, 10]
      \<and> reviews st' = ex_reviews
      \<and> tags st' = [\<lparr>tag_id = 5, tag_label = ''Study''\<rparr>]
      \<and> spots st' = [ex_spot20, ex_spot30, ex_spot40])
   \<and> map user_rep (users ex_state) = [0, 13, 10]"
proof -
  let ?rv = "\<lparr>review_id = 50, review_creator = 2, review_description = ''Calm'',
              review_rating = Num 4\<rparr>"
  let ?st1 = "ex_state\<lparr>reviews := ex_reviews @ [?rv], next_id := 51\<rparr>"
  have f: "faults (ex_env 1000) c = None" for c by (simp add: ex_env_def)
  have g: "faults ex_env_no_save c = None" if "c \<noteq> SpotSave" for c
    using that by (simp add: ex_env_no_save_def)
  have rv: "Reviews_addReview (ex_env 1000) ex_state (IdString 2) ''Calm'' (Num 4) = (Inr ?rv, ?st1)"
    by (rule addReview_ex) (rule f)
  have rv2: "Reviews_addReview ex_env_no_save ex_state (IdString 2) ''Calm'' (Num 4) = (Inr ?rv, ?st1)"
    by (rule addReview_ex) (simp add: g)
  have valid: "checkRep ''Hayden'' NullFloor = None"
    by (simp add: checkRep_def regex_test_def title_class_def char_range_def
        TITLE_LOWER_LIMIT_def TITLE_UPPER_LIMIT_def)
  have valid2: "checkRep ''Barker Dome'' NullFloor = None"
    by (simp add: checkRep_def regex_test_def title_class_def char_range_def white_space_def
        TITLE_LOWER_LIMIT_def TITLE_UPPER_LIMIT_def)
  have usr: "cast_id (IdString 2) \<in> set (map user_id (users ex_state))"
    by (simp add: ex_state_def ex_users_def)
  have dup: "faults (ex_env 1000) SpotSave \<noteq> None
               \<or> ''Hayden'' \<in> set (map spot_title (spots ex_state))"
    by (simp add: ex_state_def ex_spot30_def)
  have fault: "faults ex_env_no_save SpotSave \<noteq> None
               \<or> ''Barker Dome'' \<in> set (map spot_title (spots ex_state))"
    by (simp add: ex_env_no_save_def)
  have rs: "filter (\<lambda>r. review_id r \<noteq> review_id ?rv) (reviews ex_state) = ex_reviews"
    by (simp add: ex_state_def ex_reviews_def)
  have us: "map user_rep (map (\<lambda>u. if user_id u = cast_id (IdString 2)
                                   then u\<lparr>user_rep := user_rep u + 1\<rparr> else u) (users ex_state))
              = [0, 14, 10]"
    by (simp add: ex_state_def ex_users_def)
  have a: "\<exists>err st'. addSpot (ex_env 1000) ex_state ''Hayden'' (IdString 2)
            (42360 / 1000, - 71090 / 1000) NullFloor ''Study'' ''Calm'' (Num 4) = (Inl err, st')
      \<and> map user_rep (users st') = [0, 14, 10]
      \<and> reviews st' = ex_reviews
      \<and> tags st' = [\<lparr>tag_id = 5, tag_label = ''Study''\<rparr>]
      \<and> spots st' = [ex_spot20, ex_spot30, ex_spot40]"
  proof -
    from addSpot_failure_keeps_reputation_increment[OF rv f f valid f usr dup f f,
        of "(42360 / 1000, - 71090 / 1000)" "''Study''"]
    obtain err st' where
      r: "addSpot (ex_env 1000) ex_state ''Hayden'' (IdString 2)
            (42360 / 1000, - 71090 / 1000) NullFloor ''Study'' ''Calm'' (Num 4) = (Inl err, st')"
      and u: "users st' = map (\<lambda>u. if user_id u = cast_id (IdString 2)
                                   then u\<lparr>user_rep := user_rep u + 1\<rparr> else u) (users ex_state)"
      and rr: "reviews st' = filter (\<lambda>r. review_id r \<noteq> review_id ?rv) (reviews ex_state)"
      and t: "''Study'' \<in> set (map tag_label (tags ex_state)) \<longrightarrow> tags st' = tags ex_state"
      and sp: "spots st' = spots ex_state"
      by blast
    have "map user_rep (users st') = [0, 14, 10]" unfolding u by (rule us)
    moreover have "reviews st' = ex_reviews" unfolding rr by (rule rs)
    moreover have "tags st' = [\<lparr>tag_id = 5, tag_label = ''Study''\<rparr>]"
      using t by (simp add: ex_state_def)
    moreover have "spots st' = [ex_spot20, ex_spot30, ex_spot40]"
      unfolding sp by (simp add: ex_state_def)
    ultimately show ?thesis using r by auto
  qed
  have b: "\<exists>err st'. addSpot ex_env_no_save ex_state ''Barker Dome'' (IdString 2)
            (42360 / 1000, - 71090 / 1000) NullFloor ''Nap'' ''Calm'' (Num 4) = (Inl err, st')
      \<and> map user_rep (users st') = [0, 14, 10]
      \<and> reviews st' = ex_reviews
      \<and> tags st' = [\<lparr>tag_id = 5, tag_label = ''Study''\<rparr>]
      \<and> spots st' = [ex_spot20, ex_spot30, ex_spot40]"
  proof -
    have g': "faults ex_env_no_save GetTagByLabel = None" "faults ex_env_no_save AddTag = None"
      "faults ex_env_no_save UpdateRep = None" "faults ex_env_no_save ReviewRemove = None"
      "faults ex_env_no_save TagRemove = None"
      by (simp_all add: g)
    from addSpot_failure_keeps_reputation_increment[OF rv2 g'(1,2) valid2 g'(3) usr fault g'(4,5),
        of "(42360 / 1000, - 71090 / 1000)" "''Nap''"]
    obtain err st' where
      r: "addSpot ex_env_no_save ex_state ''Barker Dome'' (IdString 2)
            (42360 / 1000, - 71090 / 1000) NullFloor ''Nap'' ''Calm'' (Num 4) = (Inl err, st')"
      and u: "users st' = map (\<lambda>u. if user_id u = cast_id (IdString 2)
                                   then u\<lparr>user_rep := user_rep u + 1\<rparr> else u) (users ex_state)"
      and rr: "reviews st' = filter (\<lambda>r. review_id r \<noteq> review_id ?rv) (reviews ex_state)"
      and t: "''Nap'' \<notin> set (map tag_label (tags ex_state)) \<longrightarrow>
                tags st' = filter (\<lambda>t. tag_id t \<noteq> next_id ?st1) (tags ex_state)
                \<and> ''Nap'' \<notin> set (map tag_label (tags st'))"
      and sp: "spots st' = spots ex_state"
      by blast
    have "map user_rep (users st') = [0, 14, 10]" unfolding u by (rule us)
    moreover have "reviews st' = ex_reviews" unfolding rr by (rule rs)
    moreover have "tags st' = [\<lparr>tag_id = 5, tag_label = ''Study''\<rparr>]"
      using t by (simp add: ex_state_def)
    moreover have "spots st' = [ex_spot20, ex_spot30, ex_spot40]"
      unfolding sp by (simp add: ex_state_def)
    ultimately show ?thesis using r by auto
  qed
  have "map user_rep (users ex_state) = [0, 13, 10]"
    by (simp add: ex_state_def ex_users_def)
  with a b show ?thesis by blast
qed

subsection \<open>addReviewToSpot\<close>

lemma getSpotById_ex30:
  "getSpotById (ex_env t) ex_state (IdString 30)
     = Inr \<lparr>h_doc = ex_spot30, h_creator = ObjectId 100 1,
            h_reviews = [\<lparr>hr_doc = ex_reviews ! 2, hr_creator = Some (ex_users ! 0)\<rparr>]\<rparr>"
  by (simp add: getSpotById_def populate_reviews_def ex_defs)

lemma getSpotById_ex40:
  "getSpotById (ex_env t) ex_state (IdString 40)
     = Inr \<lparr>h_doc = ex_spot40, h_creator = ObjectId 100 1, h_reviews = []\<rparr>"
  by (simp add: getSpotById_def populate_reviews_def ex_defs)

lemma not_number_foldl:
  "\<forall>x. v \<noteq> JNumber x \<Longrightarrow>
   ToNumber (foldl (\<lambda>total oldReview. js_plus total (review_rating oldReview)) v rs) = NaN"
proof (induction rs arbitrary: v)
  case Nil
  then show ?case by (cases v) auto
next
  case (Cons r rs)
  then show ?case by (cases v) auto
qed

lemma reduce_no_initial_NaN:
  "reduce_no_initial (\<lambda>total oldReview. js_plus total (review_rating oldReview)) rs = Some v
     \<Longrightarrow> ToNumber v = NaN"
  by (cases rs) (auto simp: reduce_no_initial_def not_number_foldl)

lemma strict_equals_fresh:
  "caller_id st creatorId \<Longrightarrow> \<not> strict_equals (ObjectId (next_ref st) c) creatorId"
  by (cases creatorId) auto

text \<open>
  Claim C1. The claim says that after every successful call the rating of the Spot is
  the mean of the ratings of its reviews. The source calls \<^verbatim>\<open>reduce\<close> without an initial
  value (reportSpot passes \<open>0\<close>), so the sum starts from the first Review document and
  not from a Number, and the quotient is \<open>NaN\<close>, which the Spot document does not take:
  after every successful call the Spot has the rating it had before. The rating handed to
  the callback and the rating written to the store are the old one, whatever the rating
  of the new review; only the list of reviews grows.
\<close>

theorem addReviewToSpot_rating_unchanged:
  assumes "addReviewToSpot e st spotId creatorId description rating = (Inr (s, rv), st')"
  shows "\<exists>old. find (\<lambda>x. spot_id x = cast_id spotId) (spots st) = Some old
           \<and> spot_rating s = spot_rating old
           \<and> find (\<lambda>x. spot_id x = cast_id spotId) (spots st') = Some s
           \<and> spot_reviews s =
               map (\<lambda>r. review_id (hr_doc r)) (populate_reviews st (spot_reviews old))
                 @ [review_id rv]
           \<and> review_rating rv = rating"
proof -
  from assms obtain spot where g: "getSpotById e st spotId = Inr spot"
    by (cases "getSpotById e st spotId") (auto simp: addReviewToSpot_def)
  note gd = getSpotById_InrD[OF g]
  obtain r st1 where a: "Reviews_addReview e st creatorId description rating = (r, st1)"
    by (cases "Reviews_addReview e st creatorId description rating")
  from assms g a obtain rv0 where r: "r = Inr rv0"
    by (cases r) (auto simp: addReviewToSpot_def Let_def split: if_splits)
  note d = Reviews_addReview_InrD[OF a[unfolded r]]
  let ?rs = "map hr_doc (h_reviews spot) @ [rv0]"
  let ?ids = "map review_id ?rs"
  let ?f = "\<lambda>x. if spot_id x = cast_id spotId
                 then x\<lparr>spot_reviews := ?ids, spot_rating := spot_rating (h_doc spot)\<rparr> else x"
  obtain v where red: "reduce_no_initial (\<lambda>total oldReview. js_plus total (review_rating oldReview)) ?rs = Some v"
    by (cases "map hr_doc (h_reviews spot)") (auto simp: reduce_no_initial_def)
  have nan: "ToNumber v = NaN" by (rule reduce_no_initial_NaN[OF red])
  from assms g a r red nan
  have rv: "rv = rv0"
    and s: "s = (h_doc spot)\<lparr>spot_reviews := ?ids, spot_rating := spot_rating (h_doc spot)\<rparr>"
    and st': "st' = spotModel_update st1 (spot_id (h_doc spot)) ?ids (spot_rating (h_doc spot))"
    by (auto simp: addReviewToSpot_def Let_def split: if_splits option.splits)
  have sp: "spots st1 = spots st" using d(2) by simp
  have "find (\<lambda>x. spot_id x = cast_id spotId) (map ?f (spots st))
          = map_option ?f (find (\<lambda>x. spot_id x = cast_id spotId) (spots st))"
    by (rule find_map_same) simp
  then have stored: "find (\<lambda>x. spot_id x = cast_id spotId) (spots st') = Some s"
    unfolding st' spotModel_update_def s using sp gd(1,2) by simp
  have ids: "spot_reviews s =
               map (\<lambda>r. review_id (hr_doc r)) (populate_reviews st (spot_reviews (h_doc spot)))
                 @ [review_id rv]"
    unfolding s rv gd(3)[symmetric] by (simp add: comp_def)
  have "spot_rating s = spot_rating (h_doc spot)" unfolding s by simp
  with gd(1) stored ids d(1) rv show ?thesis by simp
qed

text \<open>
  Spot 30 has its seed review, rated 5, and the rating 5. User 2 adds a review rated 1:
  the call succeeds, the Spot has the two reviews, and its rating is still 5, on the
  document handed back and in the store, where the mean is 3.
\<close>

theorem addReviewToSpot_rating_unchanged_witness:
  "\<exists>s rv st'. addReviewToSpot (ex_env 1000) ex_state (IdString 30) (IdString 2) ''Noisy'' (Num 1)
        = (Inr (s, rv), st')
      \<and> spot_reviews s = [12, 50]
      \<and> spot_rating s = Num 5
      \<and> map_option spot_rating (find (\<lambda>x. spot_id x = 30) (spots st')) = Some (Num 5)
      \<and> spec_mean [5, 1] = Num 3"
proof -
  have f: "faults (ex_env 1000) c = None" for c by (simp add: ex_env_def)
  have a: "Reviews_addReview (ex_env 1000) ex_state (IdString 2) ''Noisy'' (Num 1)
     = (Inr \<lparr>review_id = 50, review_creator = 2, review_description = ''Noisy'',
             review_rating = Num 1\<rparr>,
        ex_state\<lparr>reviews := ex_reviews @
                    [\<lparr>review_id = 50, review_creator = 2, review_description = ''Noisy'',
                      review_rating = Num 1\<rparr>],
                  next_id := 51\<rparr>)"
    by (simp add: Reviews_addReview_def Let_def ex_state_def f)
  have "\<exists>s rv st'. addReviewToSpot (ex_env 1000) ex_state (IdString 30) (IdString 2) ''Noisy'' (Num 1)
        = (Inr (s, rv), st') \<and> spot_reviews s = [12, 50]"
    by (simp add: addReviewToSpot_def getSpotById_ex30 a f Let_def reduce_no_initial_def
        ex_users_def ex_reviews_def)
  then obtain s rv st' where
    r: "addReviewToSpot (ex_env 1000) ex_state (IdString 30) (IdString 2) ''Noisy'' (Num 1)
        = (Inr (s, rv), st')"
    and ids: "spot_reviews s = [12, 50]" by blast
  have old: "find (\<lambda>x. spot_id x = cast_id (IdString 30)) (spots ex_state) = Some ex_spot30"
    by (simp add: ex_state_def ex_spot20_def ex_spot30_def)
  from addReviewToSpot_rating_unchanged[OF r] old
  have "spot_rating s = spot_rating ex_spot30"
    and "find (\<lambda>x. spot_id x = cast_id (IdString 30)) (spots st') = Some s"
    by auto
  then have "spot_rating s = Num 5"
    and "map_option spot_rating (find (\<lambda>x. spot_id x = 30) (spots st')) = Some (Num 5)"
    by (simp_all add: ex_spot30_def)
  moreover have "spec_mean [5, 1] = Num 3" by (simp add: spec_mean_def)
  ultimately show ?thesis using r ids by blast
qed

text \<open>
  The author test of addReviewToSpot: a caller whose id has the JSON text of the id of
  the author of one of the Spot's (populated) reviews is rejected with Forbidden, and
  nothing changes.
\<close>

lemma addReviewToSpot_author_forbidden:
  assumes g: "getSpotById e st spotId = Inr spot"
    and no_null: "\<not> list_ex (\<lambda>r. hr_creator r = None) (h_reviews spot)"
    and author: "JSON_stringify creatorId
                   \<in> set (map (\<lambda>r. JSON_stringify_ObjectId (review_creator (hr_doc r)))
                              (h_reviews spot))"
    and pop: "list_all (\<lambda>r. map_option user_id (hr_creator r) = Some (review_creator (hr_doc r))) (h_reviews spot)"
  shows "addReviewToSpot e st spotId creatorId description rating
           = (Inl (Error ''You already submitted a review for this spot!'' FORBIDDEN), st)"
proof -
  from author obtain x where x: "x \<in> set (h_reviews spot)"
    and c: "JSON_stringify_ObjectId (review_creator (hr_doc x)) = JSON_stringify creatorId"
    by auto
  from pop x have "map_option user_id (hr_creator x) = Some (review_creator (hr_doc x))"
    by (simp add: list_all_iff)
  with x c have "filter (\<lambda>r. map_option (\<lambda>u. JSON_stringify_ObjectId (user_id u)) (hr_creator r)
                            = Some (JSON_stringify creatorId))
                (h_reviews spot) \<noteq> []"
    unfolding filter_empty_conv by (cases "hr_creator x") force+
  then show ?thesis
    using g no_null by (simp add: addReviewToSpot_def Let_def)
qed

text \<open>
  Claim C6. The claim says that a call by the Spot's own creator is always rejected.
  The source compares \<^verbatim>\<open>spot.creator === creatorId\<close> (deleteSpot compares the JSON
  texts): \<^verbatim>\<open>spot.creator\<close> is an ObjectId object made by the read, so the test is false
  for every id the caller can hold. When none of the Spot's populated reviews is by the
  creator (the seed review has been removed), the creator's call is not rejected: a
  Review by the creator is created and appended to the Spot's reviews.
\<close>

theorem addReviewToSpot_creator_not_rejected:
  assumes g: "getSpotById e st spotId = Inr spot"
    and own: "cast_id creatorId = spot_creator (h_doc spot)"
    and held: "caller_id st creatorId"
    and others: "list_all (\<lambda>r. case hr_creator r of None \<Rightarrow> False
                               | Some u \<Rightarrow> user_id u \<noteq> cast_id creatorId) (h_reviews spot)"
    and ok: "faults e AddReview = None" "faults e SpotUpdate = None"
  shows "\<exists>s rv st'. addReviewToSpot e st spotId creatorId description rating = (Inr (s, rv), st')
           \<and> review_creator rv = spot_creator (h_doc spot)
           \<and> reviews st' = reviews st @ [rv]
           \<and> spot_reviews s = map (\<lambda>r. review_id (hr_doc r)) (h_reviews spot) @ [review_id rv]"
proof -
  note gd = getSpotById_InrD[OF g]
  have no_null: "\<not> list_ex (\<lambda>r. hr_creator r = None) (h_reviews spot)"
    using others by (induction "h_reviews spot") (auto simp: list_ex_iff list_all_iff split: option.splits)
  have none: "filter (\<lambda>r. map_option (\<lambda>u. JSON_stringify_ObjectId (user_id u)) (hr_creator r)
                            = Some (JSON_stringify creatorId))
                (h_reviews spot) = []"
    using others
    by (auto simp: filter_empty_conv list_all_iff JSON_stringify_ObjectId_def
        dest!: JSON_stringify_HexText[OF sym] split: option.splits)
  have ne: "\<not> strict_equals (h_creator spot) creatorId"
    unfolding gd(4) by (rule strict_equals_fresh[OF held])
  let ?rv = "\<lparr>review_id = next_id st, review_creator = cast_id creatorId,
               review_description = description, review_rating = rating\<rparr>"
  have a: "Reviews_addReview e st creatorId description rating =
             (Inr ?rv, st\<lparr>reviews := reviews st @ [?rv], next_id := next_id st + 1\<rparr>)"
    using ok(1) by (simp add: Reviews_addReview_def Let_def)
  obtain v where red: "reduce_no_initial (\<lambda>total oldReview. js_plus total (review_rating oldReview))
                         (map hr_doc (h_reviews spot) @ [?rv]) = Some v"
    by (cases "map hr_doc (h_reviews spot)") (auto simp: reduce_no_initial_def)
  show ?thesis
    using g no_null none ne a red ok(2) own
    by (simp add: addReviewToSpot_def Let_def spotModel_update_def comp_def)
qed

text \<open>
  The seed review of Spot 40 has been removed. User 1, who created the Spot, reviews it,
  passing the id as a string or as an ObjectId object: both calls succeed.
\<close>

theorem addReviewToSpot_creator_not_rejected_witness:
  "(\<exists>s rv st'. addReviewToSpot (ex_env 1000) ex_state (IdString 40) (IdString 1) ''Mine'' (Num 5)
        = (Inr (s, rv), st')
      \<and> review_creator rv = spot_creator ex_spot40
      \<and> reviews st' = ex_reviews @ [rv])
   \<and> (\<exists>s rv st'. addReviewToSpot (ex_env 1000) ex_state (IdString 40) (ObjectId 7 1) ''Mine'' (Num 5)
        = (Inr (s, rv), st')
      \<and> review_creator rv = spot_creator ex_spot40
      \<and> reviews st' = ex_reviews @ [rv])"
proof -
  note g = getSpotById_ex40[of 1000]
  have f: "faults (ex_env 1000) c = None" for c by (simp add: ex_env_def)
  have own: "cast_id v = spot_creator (h_doc \<lparr>h_doc = ex_spot40, h_creator = ObjectId 100 1,
                                              h_reviews = []\<rparr>)"
    if "v = IdString 1 \<or> v = ObjectId 7 1" for v
    using that by (auto simp: ex_spot40_def)
  have held: "caller_id ex_state (IdString 1)" "caller_id ex_state (ObjectId 7 1)"
    by (simp_all add: ex_state_def)
  have others: "list_all (\<lambda>r. case hr_creator r of None \<Rightarrow> False
                               | Some u \<Rightarrow> user_id u \<noteq> cast_id v)
                  (h_reviews \<lparr>h_doc = ex_spot40, h_creator = ObjectId 100 1, h_reviews = []\<rparr>)"
    for v by simp
  have rs: "reviews ex_state = ex_reviews" by (simp add: ex_state_def)
  have a: "\<exists>s rv st'. addReviewToSpot (ex_env 1000) ex_state (IdString 40) (IdString 1) ''Mine'' (Num 5)
        = (Inr (s, rv), st')
      \<and> review_creator rv = spot_creator ex_spot40
      \<and> reviews st' = ex_reviews @ [rv]"
    using addReviewToSpot_creator_not_rejected[OF g own held(1) others f f, of "''Mine''" "Num 5",
        simplified]
    unfolding rs by auto
  have b: "\<exists>s rv st'. addReviewToSpot (ex_env 1000) ex_state (IdString 40) (ObjectId 7 1) ''Mine'' (Num 5)
        = (Inr (s, rv), st')
      \<and> review_creator rv = spot_creator ex_spot40
      \<and> reviews st' = ex_reviews @ [rv]"
    using addReviewToSpot_creator_not_rejected[OF g own held(2) others f f, of "''Mine''" "Num 5",
        simplified]
    unfolding rs by auto
  from a b show ?thesis by blast
qed

subsection \<open>deleteSpot\<close>

text \<open>
  The other two tests of deleteSpot: a caller whose id does not have the JSON text of
  the creator's id is rejected with Forbidden, and a Spot that is not stored is reported
  as NotFound.
\<close>

lemma deleteSpot_not_creator:
  assumes "getSpotById e st spotId = Inr spot"
    and "JSON_stringify userId \<noteq> JSON_stringify_ObjectId (spot_creator (h_doc spot))"
  shows "deleteSpot e st spotId userId
           = (Inl (Error ''You do not have access to delete this spot!'' FORBIDDEN), st)"
  using assms getSpotById_InrD(4)[OF assms(1)] by (simp add: deleteSpot_def)

lemma deleteSpot_missing:
  assumes "faults e SpotFindOne = None"
    and "cast_id spotId \<notin> set (map spot_id (spots st))"
  shows "deleteSpot e st spotId userId = (Inl (Error SPOT_NOT_FOUND NOT_FOUND), st)"
proof -
  have "find (\<lambda>s. spot_id s = cast_id spotId) (spots st) = None"
    using assms(2) by (force simp: find_None_iff)
  then show ?thesis
    using assms(1) by (simp add: deleteSpot_def getSpotById_def errorHandler_def NOT_FOUND_def)
qed

text \<open>
  The result of deleteSpot does not depend on the time of the call.
\<close>

lemma deleteSpot_time_independent:
  "deleteSpot (e\<lparr>now := t\<rparr>) st spotId userId = deleteSpot e st spotId userId"
  by (auto simp: deleteSpot_def getSpotById_def Date_createdAt_def split: option.splits sum.splits)

text \<open>
  Claim C2. The claim says that deleteSpot fails with Forbidden once more than
  86,400,000 milliseconds have passed since the Spot was created. The source reads
  \<^verbatim>\<open>spot.timestamp.createdAt\<close>, which is \<^verbatim>\<open>undefined\<close> on a Date, so the difference is
  \<open>NaN\<close> and the comparison is false: the creator's call removes the Spot also after
  the window.
\<close>

theorem deleteSpot_after_window:
  assumes g: "getSpotById e st spotId = Inr spot"
    and creator: "JSON_stringify userId = JSON_stringify_ObjectId (spot_creator (h_doc spot))"
    and elapsed: "now e - spot_timestamp (h_doc spot) > 86400000"
    and ok: "faults e SpotRemove = None"
  shows "\<exists>st'. deleteSpot e st spotId userId = (Inr (), st')
           \<and> spots st' = filter (\<lambda>s. spot_id s \<noteq> cast_id spotId) (spots st)
           \<and> getSpotById e st' spotId = Inl (Error SPOT_NOT_FOUND NOT_FOUND)"
proof -
  note gd = getSpotById_InrD[OF g]
  have found: "faults e SpotFindOne = None"
    using g by (auto simp: getSpotById_def split: option.splits)
  show ?thesis
    using g creator ok gd(4) found
    by (simp add: deleteSpot_def Date_createdAt_def spotModel_remove_def getSpotById_def
        find_filter_neq)
qed

text \<open>
  Two days after Spot 20 was created, its creator deletes it: the call succeeds and the
  Spot is gone.
\<close>

theorem deleteSpot_after_window_witness:
  "\<exists>st'. deleteSpot (ex_env 172800000) ex_state (IdString 20) (IdString 1) = (Inr (), st')
      \<and> spots st' = [ex_spot30, ex_spot40]
      \<and> now (ex_env 172800000) - spot_timestamp ex_spot20 = 2 * 86400000"
proof -
  note g = getSpotById_ex20[of 172800000]
  have c: "JSON_stringify (IdString 1) = JSON_stringify_ObjectId (spot_creator (h_doc
             \<lparr>h_doc = ex_spot20, h_creator = ObjectId 100 1,
              h_reviews = [\<lparr>hr_doc = ex_reviews ! 0, hr_creator = Some (ex_users ! 0)\<rparr>,
                           \<lparr>hr_doc = ex_reviews ! 1, hr_creator = Some (ex_users ! 1)\<rparr>]\<rparr>))"
    by (simp add: ex_spot20_def JSON_stringify_ObjectId_def)
  have el: "now (ex_env 172800000) - spot_timestamp (h_doc
             \<lparr>h_doc = ex_spot20, h_creator = ObjectId 100 1,
              h_reviews = [\<lparr>hr_doc = ex_reviews ! 0, hr_creator = Some (ex_users ! 0)\<rparr>,
                           \<lparr>hr_doc = ex_reviews ! 1, hr_creator = Some (ex_users ! 1)\<rparr>]\<rparr>)
             > 86400000"
    by (simp add: ex_spot20_def ex_env_def)
  have f: "faults (ex_env 172800000) SpotRemove = None" by (simp add: ex_env_def)
  from deleteSpot_after_window[OF g c el f]
  obtain st' where r: "deleteSpot (ex_env 172800000) ex_state (IdString 20) (IdString 1) = (Inr (), st')"
    and sp: "spots st' = filter (\<lambda>s. spot_id s \<noteq> cast_id (IdString 20)) (spots ex_state)"
    by blast
  have "spots st' = [ex_spot30, ex_spot40]"
    unfolding sp by (simp add: ex_state_def ex_spot20_def ex_spot30_def ex_spot40_def)
  with r show ?thesis by (simp add: ex_env_def ex_spot20_def)
qed

end
